theory Spec2Isabelle
  imports Main
begin

section \<open>Tokens, positions and diagnostics\<close>

text \<open>
  Modelled from the spec: the lexeme enumeration of \<^verbatim>\<open>lex.h\<close>, which is not part of the
  sources at hand.  It lists the lexeme kinds that \<^verbatim>\<open>parse.h\<close> names.
\<close>

datatype lexeme =
    SlashEq | Slash | LeftShiftEq | LeftShift | Spaceship | LessEq | Less
  | RightShiftEq | RightShift | GreaterEq | Greater | PlusPlus | PlusEq | Plus
  | MinusMinus | MinusEq | Minus | LogicalOr | LogicalAnd | MultiplyEq | Multiply
  | ModuloEq | Modulo | Ampersand | Caret | Tilde | EqualComparison | Assignment
  | NotEqualComparison | Not | LeftBrace | RightBrace | LeftParen | RightParen
  | LeftBracket | RightBracket | Scope | Colon | Semicolon | Comma | Dot | Dollar
  | FloatLiteral | BinaryLiteral | DecimalLiteral | HexadecimalLiteral
  | StringLiteral | CharacterLiteral | Keyword | Identifier

text \<open>A source position is a pair (line, column).\<close>

type_synonym source_position = "int \<times> int"

text \<open>
  Modelled from the spec: the token of \<^verbatim>\<open>lex.h\<close>.  A token exposes its lexeme kind
  (\<^verbatim>\<open>type()\<close>), its position, and its spelling, against which the parser compares string
  literals (\<^verbatim>\<open>curr() == "out"\<close>).
\<close>

record token =
  type :: lexeme
  spelling :: string
  position :: source_position

text \<open>Modelled from the spec: the stringification of a token, used in diagnostics only.\<close>

definition to_string :: "token \<Rightarrow> string" where
  "to_string t = spelling t"

text \<open>Modelled from the spec: one record of the error sink, a position and a message.\<close>

record error =
  error_where :: source_position
  error_msg :: string


section \<open>Operator categorization\<close>

fun is_prefix_operator :: "lexeme \<Rightarrow> bool" where
  "is_prefix_operator Not = True"
| "is_prefix_operator _ = False"

fun is_postfix_operator :: "lexeme \<Rightarrow> bool" where
  "is_postfix_operator PlusPlus = True"
| "is_postfix_operator MinusMinus = True"
| "is_postfix_operator Caret = True"
| "is_postfix_operator Ampersand = True"
| "is_postfix_operator Tilde = True"
| "is_postfix_operator Dollar = True"
| "is_postfix_operator _ = False"

fun is_assignment_operator :: "lexeme \<Rightarrow> bool" where
  "is_assignment_operator Assignment = True"
| "is_assignment_operator MultiplyEq = True"
| "is_assignment_operator SlashEq = True"
| "is_assignment_operator ModuloEq = True"
| "is_assignment_operator PlusEq = True"
| "is_assignment_operator MinusEq = True"
| "is_assignment_operator RightShiftEq = True"
| "is_assignment_operator LeftShiftEq = True"
| "is_assignment_operator _ = False"


section \<open>Parse tree node types\<close>

text \<open>
  The template \<^verbatim>\<open>binary_expression_node<Name, Term>\<close>: a head term and a list of
  (operator, term) pairs.  The name is a compile-time string that only the visitors read;
  it is passed to the visit function below.  The parser stores a term in a node only when
  the term was parsed, so the owning pointers \<^verbatim>\<open>expr\<close> are modelled by the term itself.
\<close>

datatype 't binary_expression_node =
  Binary_expression_node (expr: 't) (terms: "(token \<times> 't) list")

datatype passing_style = In | Inout | Out | Move | Forward

text \<open>The chain of the eleven binary layers from is-as up to assignment, over a prefix term.\<close>

type_synonym 'p is_as_layer = "'p binary_expression_node"
type_synonym 'p multiplicative_layer = "'p is_as_layer binary_expression_node"
type_synonym 'p additive_layer = "'p multiplicative_layer binary_expression_node"
type_synonym 'p shift_layer = "'p additive_layer binary_expression_node"
type_synonym 'p compare_layer = "'p shift_layer binary_expression_node"
type_synonym 'p relational_layer = "'p compare_layer binary_expression_node"
type_synonym 'p equality_layer = "'p relational_layer binary_expression_node"
type_synonym 'p logical_and_layer = "'p equality_layer binary_expression_node"
type_synonym 'p logical_or_layer = "'p logical_and_layer binary_expression_node"
type_synonym 'p assignment_layer = "'p logical_or_layer binary_expression_node"

text \<open>
  The expression nodes.  A \<^verbatim>\<open>std::variant\<close> is a datatype with one constructor for each
  alternative.  The two owning pointers that the parser may leave null in a node it
  returns are options: the expression of a term of an expression list, and the expression
  list of a postfix operator.
\<close>

datatype primary_expression_node =
    Primary_empty
  | Primary_identifier token
  | Primary_expression_list expression_list_node
and expression_list_node =
    Expression_list_node (expressions: "(passing_style \<times> expression_node option) list")
and expression_node =
    Expression_node (expression_expr: "prefix_expression_node assignment_layer")
and postfix_expression_node =
    Postfix_expression_node
      (postfix_expr: primary_expression_node)
      (postfix_ops: "(token \<times> expression_list_node option) list")
and prefix_expression_node =
    Prefix_expression_node
      (prefix_ops: "token list")
      (prefix_expr: postfix_expression_node)

type_synonym is_as_expression_node = "prefix_expression_node is_as_layer"
type_synonym multiplicative_expression_node = "prefix_expression_node multiplicative_layer"
type_synonym additive_expression_node = "prefix_expression_node additive_layer"
type_synonym shift_expression_node = "prefix_expression_node shift_layer"
type_synonym compare_expression_node = "prefix_expression_node compare_layer"
type_synonym relational_expression_node = "prefix_expression_node relational_layer"
type_synonym equality_expression_node = "prefix_expression_node equality_layer"
type_synonym logical_and_expression_node = "prefix_expression_node logical_and_layer"
type_synonym logical_or_expression_node = "prefix_expression_node logical_or_layer"
type_synonym assignment_expression_node = "prefix_expression_node assignment_layer"

datatype expression_statement_node =
  Expression_statement_node (expression_statement_expr: expression_node)

datatype unqualified_id_node =
  Unqualified_id_node (unqualified_identifier: token)

datatype qualified_id_node =
  Qualified_id_node (ids: "unqualified_id_node list")

datatype id_expression_node =
    Id_empty
  | Id_qualified qualified_id_node
  | Id_unqualified unqualified_id_node

datatype modifier = none | implicit | virtual | override | final

text \<open>
  The statement and declaration nodes.  The false branch of a selection statement and the
  initializer of a declaration are tested for null by the visit functions, so they are
  options.  The type of a declaration is a variant of a parameter list (a function) and an
  id-expression (an object).
\<close>

datatype compound_statement_node =
    Compound_statement_node
      (compound_pos: source_position)
      (statements: "statement_node list")
and selection_statement_node =
    Selection_statement_node
      (is_constexpr: bool)
      (selection_identifier: token)
      (selection_expression: expression_node)
      (true_branch: compound_statement_node)
      (false_branch: "compound_statement_node option")
and statement_node =
    Statement_expression expression_statement_node
  | Statement_compound compound_statement_node
  | Statement_selection selection_statement_node
  | Statement_declaration declaration_node
and declaration_type =
    Function parameter_declaration_list_node
  | Object id_expression_node
and declaration_node =
    Declaration_node
      (declaration_identifier: unqualified_id_node)
      (declaration_type: declaration_type)
      (initializer: "statement_node option")
and parameter_declaration_node =
    Parameter_declaration_node
      (parameter_pos: source_position)
      (parameter_pass: passing_style)
      (parameter_mod: modifier)
      (parameter_declaration: declaration_node)
and parameter_declaration_list_node =
    Parameter_declaration_list_node
      (pos_open_paren: source_position)
      (pos_close_paren: source_position)
      (parameters: "parameter_declaration_node list")

datatype translation_unit_node =
  Translation_unit_node (declarations: "declaration_node list")


section \<open>Visiting the parse tree\<close>

text \<open>
  A visitor is an object with \<^verbatim>\<open>start\<close> and \<^verbatim>\<open>end\<close> overloads for the node types and a
  \<^verbatim>\<open>start\<close> overload for tokens.  The visit functions are modelled by the sequence of calls
  that they make on any visitor: which overload is called, and with which depth.
\<close>

datatype node_kind =
    K_token token
  | K_primary_expression
  | K_prefix_expression
  | K_postfix_expression
  | K_binary_expression string
  | K_expression
  | K_expression_list
  | K_expression_statement
  | K_unqualified_id
  | K_qualified_id
  | K_id_expression
  | K_statement
  | K_compound_statement
  | K_selection_statement
  | K_declaration
  | K_parameter_declaration
  | K_parameter_declaration_list
  | K_translation_unit

datatype event = Start node_kind int | End node_kind int

text \<open>
  A visit function returns the calls it makes, or \<open>None\<close> when one of its assertions
  fails.  \<open>visit_all\<close> runs visits one after the other and \<open>around\<close> puts the calls of
  \<^verbatim>\<open>start\<close> and \<^verbatim>\<open>end\<close> on the node itself around the visits of its children.
\<close>

definition visit_all :: "event list option list \<Rightarrow> event list option" where
  "visit_all vs = map_option concat (those vs)"

definition around :: "node_kind \<Rightarrow> int \<Rightarrow> event list option \<Rightarrow> event list option" where
  "around kind depth body = map_option (\<lambda>es. Start kind depth # es @ [End kind depth]) body"

text \<open>
  Modelled from the spec: the visit of a token, which is part of \<^verbatim>\<open>lex.h\<close>.  It calls
  \<^verbatim>\<open>start\<close> on the token and has no matching \<^verbatim>\<open>end\<close>.
\<close>

definition visit_token :: "token \<Rightarrow> int \<Rightarrow> event list option" where
  "visit_token t depth = Some [Start (K_token t) depth]"

text \<open>
  The visit of the template \<^verbatim>\<open>binary_expression_node<Name, Term>\<close>, for the name and the
  visit function of the term type.
\<close>

definition visit_binary_expression_node ::
  "string \<Rightarrow> ('t \<Rightarrow> int \<Rightarrow> event list option) \<Rightarrow> 't binary_expression_node \<Rightarrow> int
     \<Rightarrow> event list option" where
  "visit_binary_expression_node name visit_term n depth =
     around (K_binary_expression name) depth
       (visit_all (visit_term (expr n) (depth + 1) #
          map (\<lambda>(op, x). visit_all [visit_token op (depth + 1), visit_term x (depth + 1)])
            (terms n)))"

text \<open>
  The visit functions of the expression nodes are recursive through the ten binary layers
  of an expression node.  The two lemmas on \<open>visit_binary_expression_node\<close> and on the
  size of a term of a binary node are what their termination proof needs.
\<close>

lemma visit_binary_expression_node_cong [fundef_cong]:
  assumes "n = n'" "depth = depth'"
    and "\<And>x d. x \<in> set_binary_expression_node n' \<Longrightarrow> f x d = g x d"
  shows "visit_binary_expression_node name f n depth = visit_binary_expression_node name g n' depth'"
proof (cases n')
  case (Binary_expression_node e ts)
  have 1: "f e d = g e d" for d
    using assms(3)[of e d] Binary_expression_node by simp
  have 2: "f x d = g x d" if "(op, x) \<in> set ts" for op x d
    using assms(3)[of x d] Binary_expression_node that by force
  have 3: "map (\<lambda>(op, x). visit_all [visit_token op (depth' + 1), f x (depth' + 1)]) ts =
        map (\<lambda>(op, x). visit_all [visit_token op (depth' + 1), g x (depth' + 1)]) ts"
    by (rule map_cong) (auto simp: 2)
  show ?thesis
    by (simp only: assms(1,2) Binary_expression_node visit_binary_expression_node_def
        binary_expression_node.sel 1 3)
qed

lemma size_binary_expression_node_member:
  "x \<in> set_binary_expression_node n \<Longrightarrow> f x < size_binary_expression_node f n"
proof (cases n)
  case (Binary_expression_node e ts)
  assume "x \<in> set_binary_expression_node n"
  then consider "x = e" | op where "(op, x) \<in> set ts"
    using Binary_expression_node by auto
  then show ?thesis
  proof cases
    case 1
    then show ?thesis using Binary_expression_node by simp
  next
    case 2
    have "f x \<le> size_list (size_prod (\<lambda>_. 0) f) ts"
      by (rule size_list_estimation'[OF 2]) simp
    then show ?thesis using Binary_expression_node by simp
  qed
qed

lemma size_optional_member:
  "(a, Some x) \<in> set xs \<Longrightarrow> size x < Suc (size_list (size_prod (\<lambda>x. 0) (size_option size)) xs + k)"
proof -
  assume m: "(a, Some x) \<in> set xs"
  have "size x \<le> size_list (size_prod (\<lambda>x. 0) (size_option size)) xs"
    by (rule size_list_estimation'[OF m]) simp
  then show ?thesis by simp
qed

lemma size_binary_expression_node_step:
  "x \<in> set_binary_expression_node n \<Longrightarrow> m < f x \<Longrightarrow> m < size_binary_expression_node f n"
  using size_binary_expression_node_member[of x n f] by simp

lemma size_layers_member:
  assumes "x1 \<in> set_binary_expression_node e" "x2 \<in> set_binary_expression_node x1"
    "x3 \<in> set_binary_expression_node x2" "x4 \<in> set_binary_expression_node x3"
    "x5 \<in> set_binary_expression_node x4" "x6 \<in> set_binary_expression_node x5"
    "x7 \<in> set_binary_expression_node x6" "x8 \<in> set_binary_expression_node x7"
    "x9 \<in> set_binary_expression_node x8" "x10 \<in> set_binary_expression_node x9"
  shows "f x10 <
    size_binary_expression_node (size_binary_expression_node (size_binary_expression_node
      (size_binary_expression_node (size_binary_expression_node (size_binary_expression_node
        (size_binary_expression_node (size_binary_expression_node (size_binary_expression_node
          (size_binary_expression_node f))))))))) e"
  apply (rule size_binary_expression_node_step[OF assms(1)])
  apply (rule size_binary_expression_node_step[OF assms(2)])
  apply (rule size_binary_expression_node_step[OF assms(3)])
  apply (rule size_binary_expression_node_step[OF assms(4)])
  apply (rule size_binary_expression_node_step[OF assms(5)])
  apply (rule size_binary_expression_node_step[OF assms(6)])
  apply (rule size_binary_expression_node_step[OF assms(7)])
  apply (rule size_binary_expression_node_step[OF assms(8)])
  apply (rule size_binary_expression_node_step[OF assms(9)])
  apply (rule size_binary_expression_node_member[OF assms(10)])
  done

function (sequential) visit_primary_expression_node :: "primary_expression_node \<Rightarrow> int \<Rightarrow> event list option"
and visit_expression_list_node :: "expression_list_node \<Rightarrow> int \<Rightarrow> event list option"
and visit_expression_node :: "expression_node \<Rightarrow> int \<Rightarrow> event list option"
and visit_postfix_expression_node :: "postfix_expression_node \<Rightarrow> int \<Rightarrow> event list option"
and visit_prefix_expression_node :: "prefix_expression_node \<Rightarrow> int \<Rightarrow> event list option" where
  "visit_primary_expression_node Primary_empty depth =
     around K_primary_expression depth (Some [])"
| "visit_primary_expression_node (Primary_identifier t) depth =
     around K_primary_expression depth (visit_token t (depth + 1))"
| "visit_primary_expression_node (Primary_expression_list l) depth =
     around K_primary_expression depth (visit_expression_list_node l (depth + 1))"
| "visit_expression_list_node (Expression_list_node xs) depth =
     around K_expression_list depth
       (visit_all (map (\<lambda>(pass, e).
          case e of None \<Rightarrow> None | Some x \<Rightarrow> visit_expression_node x (depth + 1)) xs))"
| "visit_expression_node (Expression_node e) depth =
     around K_expression depth
       (visit_binary_expression_node ''assignment''
         (visit_binary_expression_node ''logical-or''
           (visit_binary_expression_node ''logical-and''
             (visit_binary_expression_node ''equality''
               (visit_binary_expression_node ''relational''
                 (visit_binary_expression_node ''compare''
                   (visit_binary_expression_node ''shift''
                     (visit_binary_expression_node ''additive''
                       (visit_binary_expression_node ''multiplicative''
                         (visit_binary_expression_node ''is-as''
                           visit_prefix_expression_node)))))))))
         e (depth + 1))"
| "visit_postfix_expression_node (Postfix_expression_node e ops) depth =
     around K_postfix_expression depth
       (visit_all (visit_primary_expression_node e (depth + 1) #
          map (\<lambda>(op, l).
            visit_all [visit_token op (depth + 1),
              (case l of None \<Rightarrow> Some [] | Some x \<Rightarrow> visit_expression_list_node x (depth + 1))])
            ops))"
| "visit_prefix_expression_node (Prefix_expression_node ops e) depth =
     around K_prefix_expression depth
       (visit_all (map (\<lambda>op. visit_token op (depth + 1)) ops @
          [visit_postfix_expression_node e (depth + 1)]))"

  by pat_completeness auto

termination
  apply (relation "measure (case_sum (case_sum (\<lambda>p. size (fst p)) (\<lambda>p. size (fst p)))
     (case_sum (\<lambda>p. size (fst p)) (case_sum (\<lambda>p. size (fst p)) (\<lambda>p. size (fst p)))))")
    apply simp_all
    apply (auto simp: size_optional_member size_optional_member[where k=0, simplified] less_SucI size_layers_member)
  done

definition visit_expression_statement_node ::
  "expression_statement_node \<Rightarrow> int \<Rightarrow> event list option" where
  "visit_expression_statement_node n depth =
     around K_expression_statement depth
       (visit_expression_node (expression_statement_expr n) (depth + 1))"

definition visit_unqualified_id_node :: "unqualified_id_node \<Rightarrow> int \<Rightarrow> event list option" where
  "visit_unqualified_id_node n depth =
     around K_unqualified_id depth (visit_token (unqualified_identifier n) (depth + 1))"

definition visit_qualified_id_node :: "qualified_id_node \<Rightarrow> int \<Rightarrow> event list option" where
  "visit_qualified_id_node n depth =
     around K_qualified_id depth
       (visit_all (map (\<lambda>x. visit_unqualified_id_node x (depth + 1)) (ids n)))"

fun visit_id_expression_node :: "id_expression_node \<Rightarrow> int \<Rightarrow> event list option" where
  "visit_id_expression_node Id_empty depth = around K_id_expression depth (Some [])"
| "visit_id_expression_node (Id_qualified x) depth =
     around K_id_expression depth (visit_qualified_id_node x (depth + 1))"
| "visit_id_expression_node (Id_unqualified x) depth =
     around K_id_expression depth (visit_unqualified_id_node x (depth + 1))"

text \<open>
  The visit of a declaration node passes \<open>depth + 1\<close> to the helper that visits its type
  (\<open>visit_declaration_type\<close>, the template \<^verbatim>\<open>visit<I>\<close> of the node), and the helper
  visits the active alternative at the depth it is given plus one.  The same helper of a
  statement node, of an id-expression node and of a primary expression node is given
  \<open>depth\<close>.
\<close>

fun visit_compound_statement_node :: "compound_statement_node \<Rightarrow> int \<Rightarrow> event list option"
and visit_selection_statement_node :: "selection_statement_node \<Rightarrow> int \<Rightarrow> event list option"
and visit_statement_node :: "statement_node \<Rightarrow> int \<Rightarrow> event list option"
and visit_declaration_type :: "declaration_type \<Rightarrow> int \<Rightarrow> event list option"
and visit_declaration_node :: "declaration_node \<Rightarrow> int \<Rightarrow> event list option"
and visit_parameter_declaration_node ::
  "parameter_declaration_node \<Rightarrow> int \<Rightarrow> event list option"
and visit_parameter_declaration_list_node ::
  "parameter_declaration_list_node \<Rightarrow> int \<Rightarrow> event list option" where
  "visit_compound_statement_node (Compound_statement_node sp stmts) depth =
     around K_compound_statement depth
       (visit_all (map (\<lambda>x. visit_statement_node x (depth + 1)) stmts))"
| "visit_selection_statement_node (Selection_statement_node c t e tb fb) depth =
     around K_selection_statement depth
       (visit_all
         [visit_token t (depth + 1),
          visit_expression_node e (depth + 1),
          visit_compound_statement_node tb (depth + 1),
          (case fb of None \<Rightarrow> Some [] | Some x \<Rightarrow> visit_compound_statement_node x (depth + 1))])"
| "visit_statement_node (Statement_expression s) depth =
     around K_statement depth (visit_expression_statement_node s (depth + 1))"
| "visit_statement_node (Statement_compound s) depth =
     around K_statement depth (visit_compound_statement_node s (depth + 1))"
| "visit_statement_node (Statement_selection s) depth =
     around K_statement depth (visit_selection_statement_node s (depth + 1))"
| "visit_statement_node (Statement_declaration s) depth =
     around K_statement depth (visit_declaration_node s (depth + 1))"
| "visit_declaration_type (Function l) depth =
     visit_parameter_declaration_list_node l (depth + 1)"
| "visit_declaration_type (Object i) depth = visit_id_expression_node i (depth + 1)"
| "visit_declaration_node (Declaration_node name ty init) depth =
     around K_declaration depth
       (visit_all
         [visit_unqualified_id_node name (depth + 1),
          visit_declaration_type ty (depth + 1),
          (case init of None \<Rightarrow> Some [] | Some x \<Rightarrow> visit_statement_node x (depth + 1))])"
| "visit_parameter_declaration_node (Parameter_declaration_node sp ps md d) depth =
     around K_parameter_declaration depth (visit_declaration_node d (depth + 1))"
| "visit_parameter_declaration_list_node (Parameter_declaration_list_node po pc ps) depth =
     around K_parameter_declaration_list depth
       (visit_all (map (\<lambda>x. visit_parameter_declaration_node x (depth + 1)) ps))"

definition visit_translation_unit_node :: "translation_unit_node \<Rightarrow> int \<Rightarrow> event list option" where
  "visit_translation_unit_node n depth =
     around K_translation_unit depth
       (visit_all (map (\<lambda>x. visit_declaration_node x (depth + 1)) (declarations n)))"


section \<open>The parser object and its token cursor\<close>

text \<open>
  The parser holds the error sink, the accumulated parse tree, the token sequence of the
  running \<^verbatim>\<open>parse()\<close> call and the cursor \<^verbatim>\<open>pos\<close>, an \<^verbatim>\<open>int\<close> in the source.
\<close>

record parser =
  errors :: "error list"
  parse_tree :: translation_unit_node
  tokens :: "token list"
  pos :: int

definition is_done :: "parser \<Rightarrow> bool" where
  "is_done p \<longleftrightarrow> pos p = int (length (tokens p))"

text \<open>
  \<^verbatim>\<open>curr()\<close> asserts that the cursor is not at the end and subscripts the token sequence.
  \<open>None\<close> is the failed assertion, or a subscript outside the sequence.
\<close>

definition curr :: "parser \<Rightarrow> token option" where
  "curr p =
     (if is_done p then None
      else if 0 \<le> pos p \<and> pos p < int (length (tokens p)) then Some (tokens p ! nat (pos p))
      else None)"

text \<open>
  The cursor and the offset of \<^verbatim>\<open>peek\<close> are 32-bit \<^verbatim>\<open>int\<close>s, and \<^verbatim>\<open>pos + num\<close> is
  computed in that type.  \<open>int32\<close> is the value of such a sum: it wraps around when the
  mathematical sum is outside of \<open>- 2147483648 \<dots> 2147483647\<close>.
\<close>

definition int32 :: "int \<Rightarrow> int" where
  "int32 x = (x + 2147483648) mod 4294967296 - 2147483648"

text \<open>
  \<^verbatim>\<open>peek(num)\<close> tests the index \<^verbatim>\<open>pos + num\<close> against the size of the token sequence
  only.  An index below zero passes that test and is then used to subscript the vector,
  which is an access outside the sequence: \<open>Out_of_bounds\<close>.
\<close>

datatype 'a access = Out_of_bounds | Value 'a

definition peek :: "parser \<Rightarrow> int \<Rightarrow> token option access" where
  "peek p num =
     (if int32 (pos p + num) < int (length (tokens p))
      then (if int32 (pos p + num) < 0 then Out_of_bounds
            else Value (Some (tokens p ! nat (int32 (pos p + num)))))
      else Value None)"

definition next_tok :: "int \<Rightarrow> parser \<Rightarrow> parser" where
  "next_tok num p = p\<lparr>pos := min (pos p + num) (int (length (tokens p)))\<rparr>"

text \<open>
  \<^verbatim>\<open>error(msg)\<close> asserts that the cursor is not at the end and appends a diagnostic at the
  current token; \<open>None\<close> is the failed assertion.
\<close>

definition error :: "string \<Rightarrow> parser \<Rightarrow> parser option" where
  "error msg p =
     (case curr p of
        None \<Rightarrow> None
      | Some t \<Rightarrow>
          Some (p\<lparr>errors := errors p @
            [\<lparr>error_where = position t, error_msg = msg @ '' at '' @ to_string t\<rparr>]\<rparr>))"



section \<open>Outcomes of a production\<close>

text \<open>
  A production runs on the parser state and returns a result together with the new state.
  \<open>Abort\<close> is a run that stops at a failed assertion of the cursor (\<^verbatim>\<open>curr()\<close> or
  \<^verbatim>\<open>error()\<close> at the end of the input) or at an invalid access.  The loops and the
  recursion of the productions are bounded by a fuel argument; \<open>Out_of_fuel\<close> is a run that
  did not finish within its fuel.
\<close>

datatype 'a outcome = Ret 'a parser | Abort | Out_of_fuel

type_synonym 'a production = "parser \<Rightarrow> 'a option outcome"

text \<open>
  \<open>and_then\<close> runs a production and passes its result and state on.  \<open>with_curr\<close> reads
  the current token for the tests that the source makes on it in one state (an \<^verbatim>\<open>if\<close> or
  a loop condition that calls \<^verbatim>\<open>curr()\<close> several times is one read here).  \<open>with_error\<close>
  reports a diagnostic, and \<open>error_if\<close> does so under a condition.
\<close>

definition and_then :: "'a outcome \<Rightarrow> ('a \<Rightarrow> parser \<Rightarrow> 'b outcome) \<Rightarrow> 'b outcome" where
  "and_then m f = (case m of Ret x p \<Rightarrow> f x p | Abort \<Rightarrow> Abort | Out_of_fuel \<Rightarrow> Out_of_fuel)"

definition with_curr :: "parser \<Rightarrow> (token \<Rightarrow> 'a outcome) \<Rightarrow> 'a outcome" where
  "with_curr p f = (case curr p of None \<Rightarrow> Abort | Some t \<Rightarrow> f t)"

definition with_error :: "string \<Rightarrow> parser \<Rightarrow> (parser \<Rightarrow> 'a outcome) \<Rightarrow> 'a outcome" where
  "with_error msg p f = (case error msg p of None \<Rightarrow> Abort | Some p' \<Rightarrow> f p')"

definition error_if :: "bool \<Rightarrow> string \<Rightarrow> parser \<Rightarrow> (parser \<Rightarrow> 'a outcome) \<Rightarrow> 'a outcome" where
  "error_if c msg p f = (if c then with_error msg p f else f p)"


section \<open>Parsers for unary expressions\<close>

text \<open>
  The productions of the expression grammar call each other in a cycle through
  \<^verbatim>\<open>expression_list()\<close>.  Each production below takes the productions it calls as
  arguments, and the cycle is closed by \<open>expression_list\<close> further down.
\<close>

definition primary_expression ::
  "expression_list_node production \<Rightarrow> primary_expression_node production" where
  "primary_expression expr_list_fn p =
     with_curr p (\<lambda>t.
       if type t = Identifier \<or> type t = DecimalLiteral \<or> type t = FloatLiteral
          \<or> type t = StringLiteral \<or> type t = CharacterLiteral \<or> type t = BinaryLiteral
          \<or> type t = HexadecimalLiteral \<or> type t = Keyword
       then Ret (Some (Primary_identifier t)) (next_tok 1 p)
       else if type t = LeftParen then
         and_then (expr_list_fn (next_tok 1 p)) (\<lambda>expr_list p1.
           case expr_list of
             None \<Rightarrow>
               with_error ''unexpected text - ( is not followed by an expression-list'' p1
                 (\<lambda>p2. Ret None (next_tok 1 p2))
           | Some l \<Rightarrow>
               with_curr p1 (\<lambda>t1.
                 if type t1 \<noteq> RightParen then
                   with_error ''unexpected text - expression-list is not terminated by )'' p1
                     (\<lambda>p2. Ret None (next_tok 1 p2))
                 else Ret (Some (Primary_expression_list l)) (next_tok 1 p1)))
       else Ret None p)"

text \<open>
  The loop of \<^verbatim>\<open>postfix_expression()\<close>.  The switch on the operator has a case for
  \<^verbatim>\<open>[\<close> and a case for \<^verbatim>\<open>(\<close>; every other operator, the dot among them, is pushed
  with a null expression list.
\<close>

primrec postfix_expression_loop ::
  "nat \<Rightarrow> expression_list_node production \<Rightarrow> postfix_expression_node
     \<Rightarrow> postfix_expression_node production" where
  "postfix_expression_loop 0 expr_list_fn n p = Out_of_fuel"
| "postfix_expression_loop (Suc k) expr_list_fn n p =
     with_curr p (\<lambda>t.
       if is_postfix_operator (type t) \<or> type t = LeftBracket \<or> type t = LeftParen
          \<or> type t = Dot
       then
         (if type t = LeftBracket then
            and_then (expr_list_fn (next_tok 1 p)) (\<lambda>expr_list p1.
              error_if (expr_list = None) ''subscript expression [ ] must not be empty'' p1 (\<lambda>p2.
                with_curr p2 (\<lambda>t2.
                  error_if (type t2 \<noteq> RightBracket)
                    ''unexpected text - [ is not properly matched by ]'' p2 (\<lambda>p3.
                      postfix_expression_loop k expr_list_fn
                        (Postfix_expression_node (postfix_expr n) (postfix_ops n @ [(t, expr_list)]))
                        (next_tok 1 p3)))))
          else if type t = LeftParen then
            and_then (expr_list_fn (next_tok 1 p)) (\<lambda>expr_list p1.
              with_curr p1 (\<lambda>t1.
                error_if (type t1 \<noteq> RightParen)
                  ''unexpected text - ( is not properly matched by )'' p1 (\<lambda>p2.
                    postfix_expression_loop k expr_list_fn
                      (Postfix_expression_node (postfix_expr n) (postfix_ops n @ [(t, expr_list)]))
                      (next_tok 1 p2))))
          else
            postfix_expression_loop k expr_list_fn
              (Postfix_expression_node (postfix_expr n) (postfix_ops n @ [(t, None)]))
              (next_tok 1 p))
       else Ret (Some n) p)"

definition postfix_expression ::
  "nat \<Rightarrow> expression_list_node production \<Rightarrow> postfix_expression_node production" where
  "postfix_expression k expr_list_fn p =
     and_then (primary_expression expr_list_fn p) (\<lambda>e p1.
       case e of
         None \<Rightarrow> Ret None p1
       | Some x \<Rightarrow> postfix_expression_loop k expr_list_fn (Postfix_expression_node x []) p1)"

primrec prefix_expression_loop ::
  "nat \<Rightarrow> token list \<Rightarrow> parser \<Rightarrow> token list outcome" where
  "prefix_expression_loop 0 ops p = Out_of_fuel"
| "prefix_expression_loop (Suc k) ops p =
     with_curr p (\<lambda>t.
       if is_prefix_operator (type t)
       then prefix_expression_loop k (ops @ [t]) (next_tok 1 p)
       else Ret ops p)"

definition prefix_expression ::
  "nat \<Rightarrow> expression_list_node production \<Rightarrow> prefix_expression_node production" where
  "prefix_expression k expr_list_fn p =
     and_then (prefix_expression_loop k [] p) (\<lambda>ops p1.
       and_then (postfix_expression k expr_list_fn p1) (\<lambda>e p2.
         case e of
           Some x \<Rightarrow> Ret (Some (Prefix_expression_node ops x)) p2
         | None \<Rightarrow> Ret None p2))"


section \<open>Parsers for binary expressions\<close>

text \<open>
  The general binary expression: a term, then (operator, term) pairs as long as the current
  token is an operator of the level.
\<close>

primrec binary_expression_loop ::
  "nat \<Rightarrow> (token \<Rightarrow> bool) \<Rightarrow> 't production \<Rightarrow> 't binary_expression_node
     \<Rightarrow> 't binary_expression_node production" where
  "binary_expression_loop 0 is_valid_op term_fn n p = Out_of_fuel"
| "binary_expression_loop (Suc k) is_valid_op term_fn n p =
     with_curr p (\<lambda>t.
       if is_valid_op t then
         and_then (term_fn (next_tok 1 p)) (\<lambda>e p1.
           case e of
             None \<Rightarrow>
               (case peek p1 (- 1) of
                  Value (Some prev) \<Rightarrow>
                    with_error (''invalid expression after '' @ to_string prev) p1
                      (\<lambda>p2. Ret (Some n) p2)
                | Value None \<Rightarrow> Abort
                | Out_of_bounds \<Rightarrow> Abort)
           | Some x \<Rightarrow>
               binary_expression_loop k is_valid_op term_fn
                 (Binary_expression_node (expr n) (terms n @ [(t, x)])) p1)
       else Ret (Some n) p)"

definition binary_expression ::
  "nat \<Rightarrow> (token \<Rightarrow> bool) \<Rightarrow> 't production \<Rightarrow> 't binary_expression_node production" where
  "binary_expression k is_valid_op term_fn p =
     and_then (term_fn p) (\<lambda>e p1.
       case e of
         Some x \<Rightarrow> binary_expression_loop k is_valid_op term_fn (Binary_expression_node x []) p1
       | None \<Rightarrow> Ret None p1)"

definition is_as_expression ::
  "nat \<Rightarrow> expression_list_node production \<Rightarrow> is_as_expression_node production" where
  "is_as_expression k expr_list_fn =
     binary_expression k
       (\<lambda>t. type t = Keyword \<and> (spelling t = ''is'' \<or> spelling t = ''as''))
       (prefix_expression k expr_list_fn)"

definition multiplicative_expression ::
  "nat \<Rightarrow> expression_list_node production \<Rightarrow> multiplicative_expression_node production" where
  "multiplicative_expression k expr_list_fn =
     binary_expression k
       (\<lambda>t. type t = Multiply \<or> type t = Slash \<or> type t = Modulo)
       (is_as_expression k expr_list_fn)"

definition additive_expression ::
  "nat \<Rightarrow> expression_list_node production \<Rightarrow> additive_expression_node production" where
  "additive_expression k expr_list_fn =
     binary_expression k
       (\<lambda>t. type t = Plus \<or> type t = Minus)
       (multiplicative_expression k expr_list_fn)"

definition shift_expression ::
  "nat \<Rightarrow> expression_list_node production \<Rightarrow> shift_expression_node production" where
  "shift_expression k expr_list_fn =
     binary_expression k
       (\<lambda>t. type t = LeftShift \<or> type t = RightShift)
       (additive_expression k expr_list_fn)"

definition compare_expression ::
  "nat \<Rightarrow> expression_list_node production \<Rightarrow> compare_expression_node production" where
  "compare_expression k expr_list_fn =
     binary_expression k
       (\<lambda>t. type t = Spaceship)
       (shift_expression k expr_list_fn)"

definition relational_expression ::
  "nat \<Rightarrow> expression_list_node production \<Rightarrow> relational_expression_node production" where
  "relational_expression k expr_list_fn =
     binary_expression k
       (\<lambda>t. type t = Less \<or> type t = LessEq \<or> type t = Greater \<or> type t = GreaterEq)
       (compare_expression k expr_list_fn)"

definition equality_expression ::
  "nat \<Rightarrow> expression_list_node production \<Rightarrow> equality_expression_node production" where
  "equality_expression k expr_list_fn =
     binary_expression k
       (\<lambda>t. type t = EqualComparison \<or> type t = NotEqualComparison)
       (relational_expression k expr_list_fn)"

definition logical_and_expression ::
  "nat \<Rightarrow> expression_list_node production \<Rightarrow> logical_and_expression_node production" where
  "logical_and_expression k expr_list_fn =
     binary_expression k
       (\<lambda>t. type t = LogicalAnd)
       (equality_expression k expr_list_fn)"

definition logical_or_expression ::
  "nat \<Rightarrow> expression_list_node production \<Rightarrow> logical_or_expression_node production" where
  "logical_or_expression k expr_list_fn =
     binary_expression k
       (\<lambda>t. type t = LogicalOr)
       (logical_and_expression k expr_list_fn)"

definition assignment_expression ::
  "nat \<Rightarrow> expression_list_node production \<Rightarrow> assignment_expression_node production" where
  "assignment_expression k expr_list_fn =
     binary_expression k
       (\<lambda>t. is_assignment_operator (type t))
       (logical_or_expression k expr_list_fn)"

definition expression ::
  "nat \<Rightarrow> expression_list_node production \<Rightarrow> expression_node production" where
  "expression k expr_list_fn p =
     and_then (assignment_expression k expr_list_fn p) (\<lambda>e p1.
       case e of
         None \<Rightarrow> Ret None p1
       | Some x \<Rightarrow> Ret (Some (Expression_node x)) p1)"

text \<open>
  \<^verbatim>\<open>expression_list()\<close>: the first expression decides whether there is a list at all; after
  each comma the result of \<^verbatim>\<open>expression()\<close> is pushed as it is.
\<close>

primrec expression_list_loop ::
  "nat \<Rightarrow> expression_node production \<Rightarrow> expression_list_node
     \<Rightarrow> expression_list_node production" where
  "expression_list_loop 0 expr_fn n p = Out_of_fuel"
| "expression_list_loop (Suc k) expr_fn n p =
     with_curr p (\<lambda>t.
       if type t = Comma then
         with_curr (next_tok 1 p) (\<lambda>t1.
           let is_out = (type t1 = Identifier \<and> spelling t1 = ''out'');
               pass = (if is_out then Out else In);
               p1 = (if is_out then next_tok 1 (next_tok 1 p) else next_tok 1 p)
           in and_then (expr_fn p1) (\<lambda>x p2.
                expression_list_loop k expr_fn
                  (Expression_list_node (expressions n @ [(pass, x)])) p2))
       else Ret (Some n) p)"

definition expression_list_from ::
  "nat \<Rightarrow> expression_node production \<Rightarrow> expression_list_node production" where
  "expression_list_from k expr_fn p =
     (let start_pos = pos p in
      with_curr p (\<lambda>t.
        let is_out = (type t = Identifier \<and> spelling t = ''out'');
            pass = (if is_out then Out else In);
            p1 = (if is_out then next_tok 1 p else p)
        in and_then (expr_fn p1) (\<lambda>x p2.
             case x of
               None \<Rightarrow> Ret None (p2\<lparr>pos := start_pos\<rparr>)
             | Some e \<Rightarrow>
                 expression_list_loop k expr_fn (Expression_list_node [(pass, Some e)]) p2)))"

text \<open>
  The cycle of the expression grammar is closed here: with fuel \<open>Suc k\<close> an expression list
  is parsed by productions whose loops have fuel \<open>k\<close> and whose nested expression lists have
  fuel \<open>k\<close>.
\<close>

primrec expression_list :: "nat \<Rightarrow> expression_list_node production" where
  "expression_list 0 = (\<lambda>p. Out_of_fuel)"
| "expression_list (Suc k) = expression_list_from k (expression k (expression_list k))"


section \<open>Names\<close>

definition unqualified_id :: "unqualified_id_node production" where
  "unqualified_id p =
     with_curr p (\<lambda>t.
       if type t \<noteq> Identifier \<and> type t \<noteq> Keyword then Ret None p
       else Ret (Some (Unqualified_id_node t)) (next_tok 1 p))"

primrec qualified_id_loop ::
  "nat \<Rightarrow> qualified_id_node \<Rightarrow> qualified_id_node production" where
  "qualified_id_loop 0 n p = Out_of_fuel"
| "qualified_id_loop (Suc k) n p =
     with_curr p (\<lambda>t.
       if type t = Scope then
         and_then (unqualified_id (next_tok 1 p)) (\<lambda>id p1.
           case id of
             None \<Rightarrow>
               with_error ''invalid text, :: should be followed by a nested name'' p1
                 (\<lambda>p2. Ret None p2)
           | Some x \<Rightarrow> qualified_id_loop k (Qualified_id_node (ids n @ [x])) p1)
       else Ret (Some n) p)"

definition qualified_id :: "nat \<Rightarrow> qualified_id_node production" where
  "qualified_id k p =
     (let start_pos = pos p in
      and_then (unqualified_id p) (\<lambda>id p1.
        case id of
          None \<Rightarrow> Ret None (p1\<lparr>pos := start_pos\<rparr>)
        | Some x \<Rightarrow>
            with_curr p1 (\<lambda>t.
              if type t \<noteq> Scope then Ret None (p1\<lparr>pos := start_pos\<rparr>)
              else qualified_id_loop k (Qualified_id_node [x]) p1)))"

definition id_expression :: "nat \<Rightarrow> id_expression_node production" where
  "id_expression k p =
     and_then (qualified_id k p) (\<lambda>id p1.
       case id of
         Some x \<Rightarrow> Ret (Some (Id_qualified x)) p1
       | None \<Rightarrow>
           and_then (unqualified_id p1) (\<lambda>id2 p2.
             case id2 of
               Some y \<Rightarrow> Ret (Some (Id_unqualified y)) p2
             | None \<Rightarrow> Ret None p2))"



section \<open>Statements and declarations\<close>

text \<open>
  The statement and declaration productions call each other in a cycle through
  \<^verbatim>\<open>statement()\<close> and \<^verbatim>\<open>declaration()\<close>.  Each production below takes those two as
  arguments where it needs them; \<open>statement\<close> and \<open>declaration_prod\<close> close the cycle.  The
  expression productions are used at the fuel of the caller.
\<close>

definition expression_statement ::
  "nat \<Rightarrow> bool \<Rightarrow> expression_statement_node production" where
  "expression_statement k semicolon_required p =
     and_then (expression k (expression_list k) p) (\<lambda>e p1.
       case e of
         None \<Rightarrow> Ret None p1
       | Some x \<Rightarrow>
           with_curr p1 (\<lambda>t.
             if semicolon_required \<and> type t \<noteq> Semicolon then
               with_error ''expression-statement does not end with semicolon'' p1
                 (\<lambda>p2. Ret None p2)
             else if type t = Semicolon then
               Ret (Some (Expression_statement_node x)) (next_tok 1 p1)
             else Ret (Some (Expression_statement_node x)) p1))"

definition selection_statement ::
  "nat \<Rightarrow> compound_statement_node production \<Rightarrow> selection_statement_node production" where
  "selection_statement k compound_fn p =
     with_curr p (\<lambda>t.
       if type t \<noteq> Keyword \<or> spelling t \<noteq> ''if'' then Ret None p
       else
         with_curr (next_tok 1 p) (\<lambda>t1.
           let constexpr = (type t1 = Keyword \<and> spelling t1 = ''constexpr'');
               p1 = (if constexpr then next_tok 1 (next_tok 1 p) else next_tok 1 p)
           in and_then (expression k (expression_list k) p1) (\<lambda>e p2.
                case e of
                  None \<Rightarrow> with_error ''invalid if condition'' p2 (\<lambda>p3. Ret None p3)
                | Some cond \<Rightarrow>
                    and_then (compound_fn p2) (\<lambda>s p3.
                      case s of
                        None \<Rightarrow> with_error ''invalid if branch body'' p3 (\<lambda>p4. Ret None p4)
                      | Some tb \<Rightarrow>
                          with_curr p3 (\<lambda>t3.
                            if type t3 \<noteq> Keyword \<or> spelling t3 \<noteq> ''else'' then
                              Ret (Some (Selection_statement_node constexpr t cond tb
                                     (Some (Compound_statement_node (0, 0) [])))) p3
                            else
                              and_then (compound_fn (next_tok 1 p3)) (\<lambda>s2 p4.
                                case s2 of
                                  None \<Rightarrow>
                                    with_error ''invalid else branch body'' p4
                                      (\<lambda>p5. Ret None p5)
                                | Some fb \<Rightarrow>
                                    Ret (Some (Selection_statement_node constexpr t cond tb
                                           (Some fb))) p4))))))"

primrec compound_statement_loop ::
  "nat \<Rightarrow> (bool \<Rightarrow> statement_node production) \<Rightarrow> compound_statement_node
     \<Rightarrow> compound_statement_node production" where
  "compound_statement_loop 0 statement_fn n p = Out_of_fuel"
| "compound_statement_loop (Suc k) statement_fn n p =
     with_curr p (\<lambda>t.
       if type t \<noteq> RightBrace then
         and_then (statement_fn True p) (\<lambda>s p1.
           case s of
             None \<Rightarrow>
               with_error ''invalid statement in compound-statement'' p1 (\<lambda>p2. Ret None p2)
           | Some x \<Rightarrow>
               compound_statement_loop k statement_fn
                 (Compound_statement_node (compound_pos n) (statements n @ [x])) p1)
       else Ret (Some n) (next_tok 1 p))"

definition compound_statement ::
  "nat \<Rightarrow> (bool \<Rightarrow> statement_node production) \<Rightarrow> compound_statement_node production" where
  "compound_statement k statement_fn p =
     with_curr p (\<lambda>t.
       if type t \<noteq> LeftBrace then Ret None p
       else compound_statement_loop k statement_fn
              (Compound_statement_node (position t) []) (next_tok 1 p))"

text \<open>
  \<^verbatim>\<open>statement()\<close> tries selection, compound, declaration (with its default argument, a
  required semicolon) and expression statement, in this order.
\<close>

definition statement_from ::
  "nat \<Rightarrow> (bool \<Rightarrow> statement_node production) \<Rightarrow> (bool \<Rightarrow> declaration_node production)
     \<Rightarrow> bool \<Rightarrow> statement_node production" where
  "statement_from k statement_fn declaration_fn semicolon_required p =
     and_then (selection_statement k (compound_statement k statement_fn) p) (\<lambda>s1 p1.
       case s1 of
         Some x \<Rightarrow> Ret (Some (Statement_selection x)) p1
       | None \<Rightarrow>
           and_then (compound_statement k statement_fn p1) (\<lambda>s2 p2.
             case s2 of
               Some x \<Rightarrow> Ret (Some (Statement_compound x)) p2
             | None \<Rightarrow>
                 and_then (declaration_fn True p2) (\<lambda>s3 p3.
                   case s3 of
                     Some x \<Rightarrow> Ret (Some (Statement_declaration x)) p3
                   | None \<Rightarrow>
                       and_then (expression_statement k semicolon_required p3) (\<lambda>s4 p4.
                         case s4 of
                           Some x \<Rightarrow> Ret (Some (Statement_expression x)) p4
                         | None \<Rightarrow> Ret None p4))))"

text \<open>
  \<^verbatim>\<open>parameter_declaration()\<close>: an optional passing style, an optional this-specifier, and
  a declaration whose semicolon is not required.
\<close>

definition parameter_declaration ::
  "(bool \<Rightarrow> declaration_node production) \<Rightarrow> parameter_declaration_node production" where
  "parameter_declaration declaration_fn p =
     with_curr p (\<lambda>t.
       let pass_word = (type t = Identifier \<and>
             (spelling t = ''in'' \<or> spelling t = ''inout'' \<or> spelling t = ''out''
              \<or> spelling t = ''move'' \<or> spelling t = ''forward''));
           pass = (if type t = Identifier \<and> spelling t = ''inout'' then Inout
                   else if type t = Identifier \<and> spelling t = ''out'' then Out
                   else if type t = Identifier \<and> spelling t = ''move'' then Move
                   else if type t = Identifier \<and> spelling t = ''forward'' then Forward
                   else In);
           p1 = (if pass_word then next_tok 1 p else p)
       in with_curr p1 (\<lambda>t1.
            let mod_word = (type t1 = Identifier \<and>
                  (spelling t1 = ''implicit'' \<or> spelling t1 = ''virtual''
                   \<or> spelling t1 = ''override'' \<or> spelling t1 = ''final''));
                md = (if type t1 = Identifier \<and> spelling t1 = ''implicit'' then implicit
                      else if type t1 = Identifier \<and> spelling t1 = ''virtual'' then virtual
                      else if type t1 = Identifier \<and> spelling t1 = ''override'' then override
                      else if type t1 = Identifier \<and> spelling t1 = ''final'' then final
                      else none);
                p2 = (if mod_word then next_tok 1 p1 else p1)
            in and_then (declaration_fn False p2) (\<lambda>d p3.
                 case d of
                   None \<Rightarrow> Ret None p3
                 | Some x \<Rightarrow> Ret (Some (Parameter_declaration_node (position t) pass md x)) p3)))"

text \<open>
  The end of \<^verbatim>\<open>parameter_declaration_list()\<close>, reached when the loop is left by
  \<^verbatim>\<open>break\<close> or by a parameter declaration that does not parse.
\<close>

definition parameter_declaration_list_close ::
  "parameter_declaration_list_node \<Rightarrow> parameter_declaration_list_node production" where
  "parameter_declaration_list_close n p =
     with_curr p (\<lambda>t.
       if type t \<noteq> RightParen then
         with_error ''invalid parameter list'' p (\<lambda>p1. Ret None (next_tok 1 p1))
       else
         Ret (Some (Parameter_declaration_list_node (pos_open_paren n) (position t)
                (parameters n))) (next_tok 1 p))"

primrec parameter_declaration_list_loop ::
  "nat \<Rightarrow> parameter_declaration_node production \<Rightarrow> parameter_declaration_list_node
     \<Rightarrow> parameter_declaration_list_node production" where
  "parameter_declaration_list_loop 0 param_fn n p = Out_of_fuel"
| "parameter_declaration_list_loop (Suc k) param_fn n p =
     and_then (param_fn p) (\<lambda>param p1.
       case param of
         None \<Rightarrow> parameter_declaration_list_close n p1
       | Some x \<Rightarrow>
           (let n1 = Parameter_declaration_list_node (pos_open_paren n) (pos_close_paren n)
                       (parameters n @ [x])
            in with_curr p1 (\<lambda>t.
                 if type t = RightParen then parameter_declaration_list_close n1 p1
                 else if type t \<noteq> Comma then
                   with_error ''expected , in parameter list'' p1 (\<lambda>p2. Ret None p2)
                 else parameter_declaration_list_loop k param_fn n1 (next_tok 1 p1))))"

text \<open>
  The node is value-initialized by \<^verbatim>\<open>make_unique\<close>, so the position of the closing
  parenthesis is (0, 0) until it is recorded.
\<close>

definition parameter_declaration_list ::
  "nat \<Rightarrow> parameter_declaration_node production
     \<Rightarrow> parameter_declaration_list_node production" where
  "parameter_declaration_list k param_fn p =
     with_curr p (\<lambda>t.
       if type t \<noteq> LeftParen then Ret None p
       else parameter_declaration_list_loop k param_fn
              (Parameter_declaration_list_node (position t) (0, 0) []) (next_tok 1 p))"

text \<open>
  The tail of \<^verbatim>\<open>declaration()\<close> after the name, the colon and the optional type: the
  optional semicolon, or \<^verbatim>\<open>=\<close> and the initializer.
\<close>

definition declaration_rest ::
  "(bool \<Rightarrow> statement_node production) \<Rightarrow> bool \<Rightarrow> unqualified_id_node \<Rightarrow> declaration_type
     \<Rightarrow> declaration_node production" where
  "declaration_rest statement_fn semicolon_required name ty p =
     with_curr p (\<lambda>t.
       if type t \<noteq> Assignment then
         (if type t = Semicolon then Ret (Some (Declaration_node name ty None)) (next_tok 1 p)
          else if semicolon_required then
            with_error ''missing semicolon at end of declaration'' p (\<lambda>p1. Ret None p1)
          else Ret (Some (Declaration_node name ty None)) p)
       else
         and_then (statement_fn semicolon_required (next_tok 1 p)) (\<lambda>s p1.
           case s of
             None \<Rightarrow> with_error ''ill-formed initializer'' p1 (\<lambda>p2. Ret None (next_tok 1 p2))
           | Some x \<Rightarrow> Ret (Some (Declaration_node name ty (Some x))) p1))"

definition declaration_from ::
  "nat \<Rightarrow> (bool \<Rightarrow> statement_node production) \<Rightarrow> (bool \<Rightarrow> declaration_node production)
     \<Rightarrow> bool \<Rightarrow> declaration_node production" where
  "declaration_from k statement_fn declaration_fn semicolon_required p =
     (if is_done p then Ret None p
      else
        let start_pos = pos p in
        and_then (unqualified_id p) (\<lambda>id p1.
          case id of
            None \<Rightarrow> Ret None p1
          | Some name \<Rightarrow>
              with_curr p1 (\<lambda>t.
                if type t \<noteq> Colon then Ret None (p1\<lparr>pos := start_pos\<rparr>)
                else
                  and_then (parameter_declaration_list k (parameter_declaration declaration_fn)
                              (next_tok 1 p1)) (\<lambda>t1 p2.
                    case t1 of
                      Some l \<Rightarrow>
                        declaration_rest statement_fn semicolon_required name (Function l) p2
                    | None \<Rightarrow>
                        and_then (id_expression k p2) (\<lambda>t2 p3.
                          case t2 of
                            Some i \<Rightarrow>
                              declaration_rest statement_fn semicolon_required name (Object i) p3
                          | None \<Rightarrow>
                              declaration_rest statement_fn semicolon_required name
                                (Object Id_empty) p3)))))"

text \<open>
  The cycle of statements and declarations is closed here: with fuel \<open>Suc k\<close> a statement or
  a declaration is parsed by productions whose loops have fuel \<open>k\<close> and whose nested
  statements and declarations have fuel \<open>k\<close>.
\<close>

fun statement :: "nat \<Rightarrow> bool \<Rightarrow> statement_node production"
and declaration_prod :: "nat \<Rightarrow> bool \<Rightarrow> declaration_node production" where
  "statement 0 semicolon_required p = Out_of_fuel"
| "statement (Suc k) semicolon_required p =
     statement_from k (statement k) (declaration_prod k) semicolon_required p"
| "declaration_prod 0 semicolon_required p = Out_of_fuel"
| "declaration_prod (Suc k) semicolon_required p =
     declaration_from k (statement k) (declaration_prod k) semicolon_required p"


section \<open>Translation unit and the parser interface\<close>

primrec translation_unit_loop ::
  "nat \<Rightarrow> declaration_node production \<Rightarrow> translation_unit_node \<Rightarrow> parser
     \<Rightarrow> translation_unit_node outcome" where
  "translation_unit_loop 0 declaration_fn n p = Out_of_fuel"
| "translation_unit_loop (Suc k) declaration_fn n p =
     and_then (declaration_fn p) (\<lambda>d p1.
       case d of
         None \<Rightarrow> Ret n p1
       | Some x \<Rightarrow>
           translation_unit_loop k declaration_fn
             (Translation_unit_node (declarations n @ [x])) p1)"

definition translation_unit :: "nat \<Rightarrow> parser \<Rightarrow> translation_unit_node outcome" where
  "translation_unit k p =
     translation_unit_loop k (declaration_prod k True) (Translation_unit_node []) p"

text \<open>
  \<^verbatim>\<open>parse(tokens)\<close> points the cursor at the start of the tokens, parses a translation
  unit, appends its declarations to the stored parse tree and answers whether the cursor
  is at the end.
\<close>

definition parse :: "nat \<Rightarrow> token list \<Rightarrow> parser \<Rightarrow> bool outcome" where
  "parse k toks pr =
     (let p = pr\<lparr>tokens := toks, pos := 0\<rparr> in
      and_then (translation_unit k p) (\<lambda>tu p1.
        let p2 = p1\<lparr>parse_tree :=
                   Translation_unit_node (declarations (parse_tree p1) @ declarations tu)\<rparr>
        in if \<not> is_done p2 then
             with_error ''unexpected text at end of Cpp2 code section'' p2
               (\<lambda>p3. Ret False p3)
           else Ret True p2))"

text \<open>The constructor of the parser: an error sink and an empty parse tree.\<close>

definition new_parser :: "error list \<Rightarrow> parser" where
  "new_parser errs =
     \<lparr>errors = errs, parse_tree = Translation_unit_node [], tokens = [], pos = 0\<rparr>"

text \<open>\<^verbatim>\<open>parser::visit\<close> walks the stored tree from depth 0.\<close>

definition visit :: "parser \<Rightarrow> event list option" where
  "visit p = visit_translation_unit_node (parse_tree p) 0"


text \<open>The result and the final state of a run that returns.\<close>

definition result_of :: "'a outcome \<Rightarrow> 'a option" where
  "result_of m = (case m of Ret x q \<Rightarrow> Some x | Abort \<Rightarrow> None | Out_of_fuel \<Rightarrow> None)"

definition state_of :: "'a outcome \<Rightarrow> parser option" where
  "state_of m = (case m of Ret x q \<Rightarrow> Some q | Abort \<Rightarrow> None | Out_of_fuel \<Rightarrow> None)"


section \<open>Example inputs\<close>

text \<open>
  A token on line 1 at the given column, a parser state on a token sequence with the
  cursor at a given index, and the nodes that the parser builds for an expression that is a
  single identifier or literal.
\<close>

definition tok :: "lexeme \<Rightarrow> string \<Rightarrow> int \<Rightarrow> token" where
  "tok ty s col = \<lparr>type = ty, spelling = s, position = (1, col)\<rparr>"

definition parser_on :: "token list \<Rightarrow> int \<Rightarrow> parser" where
  "parser_on toks i =
     \<lparr>errors = [], parse_tree = Translation_unit_node [], tokens = toks, pos = i\<rparr>"

definition lone_term :: "'t \<Rightarrow> 't binary_expression_node" where
  "lone_term x = Binary_expression_node x []"

definition identifier_prefix :: "token \<Rightarrow> prefix_expression_node" where
  "identifier_prefix t =
     Prefix_expression_node [] (Postfix_expression_node (Primary_identifier t) [])"

definition identifier_expression :: "token \<Rightarrow> expression_node" where
  "identifier_expression t =
     Expression_node
       (lone_term (lone_term (lone_term (lone_term (lone_term (lone_term (lone_term
         (lone_term (lone_term (lone_term (identifier_prefix t)))))))))))"

text \<open>\<^verbatim>\<open>x : int = 42 ;\<close>\<close>

definition declaration_tokens :: "token list" where
  "declaration_tokens =
     [tok Identifier ''x'' 1, tok Colon '':'' 3, tok Keyword ''int'' 5, tok Assignment ''='' 9,
      tok DecimalLiteral ''42'' 11, tok Semicolon '';'' 14]"

text \<open>\<^verbatim>\<open>x : int = a + ;\<close>\<close>

definition dangling_plus_tokens :: "token list" where
  "dangling_plus_tokens =
     [tok Identifier ''x'' 1, tok Colon '':'' 3, tok Keyword ''int'' 5, tok Assignment ''='' 9,
      tok Identifier ''a'' 11, tok Plus ''+'' 13, tok Semicolon '';'' 15]"

text \<open>\<^verbatim>\<open>) ; ;\<close>\<close>

definition stray_tokens :: "token list" where
  "stray_tokens = [tok RightParen '')'' 1, tok Semicolon '';'' 3, tok Semicolon '';'' 5]"

text \<open>\<^verbatim>\<open>a , )\<close> and \<^verbatim>\<open>x : = ( a , ) ;\<close>\<close>

definition trailing_comma_tokens :: "token list" where
  "trailing_comma_tokens =
     [tok Identifier ''a'' 1, tok Comma '','' 3, tok RightParen '')'' 5]"

definition trailing_comma_declaration_tokens :: "token list" where
  "trailing_comma_declaration_tokens =
     [tok Identifier ''x'' 1, tok Colon '':'' 3, tok Assignment ''='' 4, tok LeftParen ''('' 6,
      tok Identifier ''a'' 8, tok Comma '','' 10, tok RightParen '')'' 12,
      tok Semicolon '';'' 14]"

text \<open>\<^verbatim>\<open>x : int y\<close>\<close>

definition missing_semicolon_tokens :: "token list" where
  "missing_semicolon_tokens =
     [tok Identifier ''x'' 1, tok Colon '':'' 3, tok Keyword ''int'' 5, tok Identifier ''y'' 9]"

text \<open>\<^verbatim>\<open>std :: 1\<close>\<close>

definition bad_scope_tokens :: "token list" where
  "bad_scope_tokens =
     [tok Identifier ''std'' 1, tok Scope ''::'' 5, tok DecimalLiteral ''1'' 8]"

text \<open>\<^verbatim>\<open>! ;\<close>\<close>

definition not_semicolon_tokens :: "token list" where
  "not_semicolon_tokens = [tok Not ''!'' 1, tok Semicolon '';'' 3]"

text \<open>\<^verbatim>\<open>x : int = a + b * c ;\<close> and the expression node of its initializer.\<close>

definition precedence_tokens :: "token list" where
  "precedence_tokens =
     [tok Identifier ''x'' 1, tok Colon '':'' 3, tok Keyword ''int'' 5, tok Assignment ''='' 9,
      tok Identifier ''a'' 11, tok Plus ''+'' 13, tok Identifier ''b'' 15,
      tok Multiply ''*'' 17, tok Identifier ''c'' 19, tok Semicolon '';'' 21]"

definition a_plus_b_times_c :: expression_node where
  "a_plus_b_times_c =
     Expression_node
       (lone_term (lone_term (lone_term (lone_term (lone_term (lone_term (lone_term
         (Binary_expression_node
            (lone_term (lone_term (identifier_prefix (tok Identifier ''a'' 11))))
            [(tok Plus ''+'' 13,
              Binary_expression_node
                (lone_term (identifier_prefix (tok Identifier ''b'' 15)))
                [(tok Multiply ''*'' 17,
                  lone_term (identifier_prefix (tok Identifier ''c'' 19)))])]))))))))"


definition if_else_tokens :: "token list" where
  "if_else_tokens =
     [tok Keyword ''if'' 1, tok Identifier ''a'' 4, tok LeftBrace ''{'' 6,
      tok RightBrace ''}'' 8, tok Keyword ''else'' 10, tok LeftBrace ''{'' 15,
      tok RightBrace ''}'' 17, tok Semicolon '';'' 18]"

text \<open>\<^verbatim>\<open>a . b ;\<close>\<close>

definition dot_tokens :: "token list" where
  "dot_tokens =
     [tok Identifier ''a'' 1, tok Dot ''.'' 2, tok Identifier ''b'' 3, tok Semicolon '';'' 4]"

text \<open>\<^verbatim>\<open>x : int ;\<close> and its declaration node.\<close>

definition object_declaration_tokens :: "token list" where
  "object_declaration_tokens =
     [tok Identifier ''x'' 1, tok Colon '':'' 3, tok Keyword ''int'' 5, tok Semicolon '';'' 8]"

definition object_declaration :: declaration_node where
  "object_declaration =
     Declaration_node (Unqualified_id_node (tok Identifier ''x'' 1))
       (Object (Id_unqualified (Unqualified_id_node (tok Keyword ''int'' 5)))) None"


section \<open>Properties of parser states and outcomes\<close>

text \<open>
  The cursor is in range when it is at most the size of the token sequence, and
  \<open>remaining\<close> counts the tokens from the cursor to the end.
\<close>

definition in_range :: "parser \<Rightarrow> bool" where
  "in_range p \<longleftrightarrow> pos p \<le> int (length (tokens p))"

definition remaining :: "parser \<Rightarrow> nat" where
  "remaining p = nat (int (length (tokens p)) - pos p)"

text \<open>
  A state \<open>q\<close> advances a state \<open>p\<close> when it has the same tokens and the same stored tree,
  its cursor is not before that of \<open>p\<close> and in range, and its error sink is not shorter.
  A production consumes when, in addition, a result that is not absent comes with a
  cursor strictly after that of \<open>p\<close>.
\<close>

definition advances :: "parser \<Rightarrow> parser \<Rightarrow> bool" where
  "advances p q \<longleftrightarrow>
     tokens q = tokens p \<and> parse_tree q = parse_tree p \<and> pos p \<le> pos q \<and>
     pos q \<le> int (length (tokens p)) \<and> length (errors p) \<le> length (errors q)"

definition consumes :: "parser \<Rightarrow> 'a option \<Rightarrow> parser \<Rightarrow> bool" where
  "consumes p x q \<longleftrightarrow> advances p q \<and> (x = None \<or> pos p < pos q)"

text \<open>
  An absent result comes with the cursor of the entry state or with a new diagnostic.
\<close>

definition rewinds_or_reports :: "parser \<Rightarrow> 'a option \<Rightarrow> parser \<Rightarrow> bool" where
  "rewinds_or_reports p x q \<longleftrightarrow>
     consumes p x q \<and>
     (x = None \<longrightarrow> pos q = pos p \<or> length (errors p) < length (errors q))"

text \<open>
  \<open>holds F m Q\<close>: a run that returns satisfies \<open>Q\<close>; a run that is out of fuel is accepted
  exactly when \<open>F\<close> is true.  With \<open>F = True\<close> this is partial correctness for every fuel,
  with \<open>F = False\<close> it also says that the fuel suffices.
\<close>

definition holds :: "bool \<Rightarrow> 'a outcome \<Rightarrow> ('a \<Rightarrow> parser \<Rightarrow> bool) \<Rightarrow> bool" where
  "holds F m Q = (case m of Ret x q \<Rightarrow> Q x q | Abort \<Rightarrow> True | Out_of_fuel \<Rightarrow> F)"

definition yields :: "('a \<Rightarrow> bool) \<Rightarrow> 'a option \<Rightarrow> bool" where
  "yields P x = (case x of None \<Rightarrow> True | Some y \<Rightarrow> P y)"

text \<open>
  The operators of a binary node belong to its layer, and its terms are well-formed nodes
  of the next layer.  The ten predicates below instantiate this for the layers of the
  expression grammar, with the operator sets of the productions.
\<close>

definition layer_ok ::
  "(token \<Rightarrow> bool) \<Rightarrow> ('t \<Rightarrow> bool) \<Rightarrow> 't binary_expression_node \<Rightarrow> bool" where
  "layer_ok is_op sub n \<longleftrightarrow> sub (expr n) \<and> list_all (\<lambda>(t, x). is_op t \<and> sub x) (terms n)"

definition is_as_ok :: "is_as_expression_node \<Rightarrow> bool" where
  "is_as_ok = layer_ok (\<lambda>t. type t = Keyword \<and> (spelling t = ''is'' \<or> spelling t = ''as'')) (\<lambda>_. True)"

definition multiplicative_ok :: "multiplicative_expression_node \<Rightarrow> bool" where
  "multiplicative_ok = layer_ok (\<lambda>t. type t = Multiply \<or> type t = Slash \<or> type t = Modulo) is_as_ok"

definition additive_ok :: "additive_expression_node \<Rightarrow> bool" where
  "additive_ok = layer_ok (\<lambda>t. type t = Plus \<or> type t = Minus) multiplicative_ok"

definition shift_ok :: "shift_expression_node \<Rightarrow> bool" where
  "shift_ok = layer_ok (\<lambda>t. type t = LeftShift \<or> type t = RightShift) additive_ok"

definition compare_ok :: "compare_expression_node \<Rightarrow> bool" where
  "compare_ok = layer_ok (\<lambda>t. type t = Spaceship) shift_ok"

definition relational_ok :: "relational_expression_node \<Rightarrow> bool" where
  "relational_ok = layer_ok (\<lambda>t. type t = Less \<or> type t = LessEq \<or> type t = Greater \<or> type t = GreaterEq) compare_ok"

definition equality_ok :: "equality_expression_node \<Rightarrow> bool" where
  "equality_ok = layer_ok (\<lambda>t. type t = EqualComparison \<or> type t = NotEqualComparison) relational_ok"

definition logical_and_ok :: "logical_and_expression_node \<Rightarrow> bool" where
  "logical_and_ok = layer_ok (\<lambda>t. type t = LogicalAnd) equality_ok"

definition logical_or_ok :: "logical_or_expression_node \<Rightarrow> bool" where
  "logical_or_ok = layer_ok (\<lambda>t. type t = LogicalOr) logical_and_ok"

definition assignment_ok :: "assignment_expression_node \<Rightarrow> bool" where
  "assignment_ok = layer_ok (\<lambda>t. is_assignment_operator (type t)) logical_or_ok"



subsection \<open>The tokens of an expression node\<close>

text \<open>
  An expression node is compared with the tokens that its production consumed through a
  pattern: a list of items in the order in which the productions read the tokens.
  \<open>One P\<close> stands for one token that satisfies \<open>P\<close>, and \<open>Many P\<close> for any number of
  tokens that satisfy \<open>P\<close>.  \<open>matches\<close> compares a pattern with a token list from left to
  right.
\<close>

datatype item = One "token \<Rightarrow> bool" | Many "token \<Rightarrow> bool"

fun matches :: "item list \<Rightarrow> token list \<Rightarrow> bool" where
  "matches [] ts = (ts = [])"
| "matches (One P # ps) [] = False"
| "matches (One P # ps) (t # ts) = (P t \<and> matches ps ts)"
| "matches (Many P # ps) [] = matches ps []"
| "matches (Many P # ps) (t # ts) = (matches ps (t # ts) \<or> P t \<and> matches (Many P # ps) ts)"

text \<open>
  A token that a node stores is the token \<open>t\<close> itself, in the role in which the production
  accepted it.  A token that a production consumes without storing it is known by its
  lexeme only: the parentheses of a parenthesized primary expression, the bracket or
  parenthesis that closes a subscript or a call, and the commas of an expression list.
  The identifier \<^verbatim>\<open>out\<close> before a term of an expression list is consumed and recorded
  as the passing style \<open>Out\<close> of the term.  A null term of an expression list records no
  token: the expression production returns no node without a diagnostic only after it
  consumed prefix operators and found no primary expression after them.
\<close>

definition stored :: "(token \<Rightarrow> bool) \<Rightarrow> token \<Rightarrow> item" where
  "stored role t = One (\<lambda>t'. t' = t \<and> role t)"

definition dropped :: "lexeme \<Rightarrow> item" where
  "dropped l = One (\<lambda>t'. type t' = l)"

definition out_marker :: item where
  "out_marker = One (\<lambda>t'. type t' = Identifier \<and> spelling t' = ''out'')"

definition prefix_operators :: item where
  "prefix_operators = Many (\<lambda>t'. is_prefix_operator (type t'))"

text \<open>
  The tokens that \<^verbatim>\<open>primary_expression()\<close> stores as an identifier, and the tokens that
  \<^verbatim>\<open>postfix_expression()\<close> stores as an operator.
\<close>

definition is_primary_token :: "token \<Rightarrow> bool" where
  "is_primary_token t \<longleftrightarrow>
     type t = Identifier \<or> type t = DecimalLiteral \<or> type t = FloatLiteral
     \<or> type t = StringLiteral \<or> type t = CharacterLiteral \<or> type t = BinaryLiteral
     \<or> type t = HexadecimalLiteral \<or> type t = Keyword"

definition is_postfix_token :: "token \<Rightarrow> bool" where
  "is_postfix_token t \<longleftrightarrow>
     is_postfix_operator (type t) \<or> type t = LeftBracket \<or> type t = LeftParen \<or> type t = Dot"

text \<open>\<open>separated sep xss\<close> is the concatenation of \<open>xss\<close> with \<open>sep\<close> between its members.\<close>

fun separated :: "'a list \<Rightarrow> 'a list list \<Rightarrow> 'a list" where
  "separated sep [] = []"
| "separated sep [x] = x"
| "separated sep (x # y # ys) = x @ sep @ separated sep (y # ys)"

text \<open>
  After the expression list of a postfix operator \<^verbatim>\<open>[\<close> or \<^verbatim>\<open>(\<close> the production
  consumes the closing token; the other postfix operators have nothing after them.
\<close>

definition closing :: "token \<Rightarrow> item list" where
  "closing op =
     (if type op = LeftBracket then [dropped RightBracket]
      else if type op = LeftParen then [dropped RightParen]
      else [])"

text \<open>
  The pattern of a binary node: the pattern of its first term, then each stored operator,
  which is an operator of the layer, followed by the pattern of its term.
\<close>

definition pattern_binary_expression_node ::
  "(token \<Rightarrow> bool) \<Rightarrow> ('t \<Rightarrow> item list) \<Rightarrow> 't binary_expression_node
     \<Rightarrow> item list" where
  "pattern_binary_expression_node is_valid_op pattern_term n =
     pattern_term (expr n) @
     concat (map (\<lambda>(op, x). stored is_valid_op op # pattern_term x) (terms n))"

lemma pattern_binary_expression_node_cong [fundef_cong]:
  assumes "n = n'"
    and "\<And>x. x \<in> set_binary_expression_node n' \<Longrightarrow> f x = g x"
  shows "pattern_binary_expression_node is_op f n = pattern_binary_expression_node is_op g n'"
proof (cases n')
  case (Binary_expression_node e ts)
  have 1: "f e = g e"
    using assms(2)[of e] Binary_expression_node by simp
  have 2: "f x = g x" if "(op, x) \<in> set ts" for op x
    using assms(2)[of x] Binary_expression_node that by force
  have 3: "map (\<lambda>(op, x). stored is_op op # f x) ts = map (\<lambda>(op, x). stored is_op op # g x) ts"
    by (rule map_cong) (auto simp: 2)
  show ?thesis
    by (simp only: assms(1) Binary_expression_node pattern_binary_expression_node_def
        binary_expression_node.sel 1 3)
qed

text \<open>
  The patterns of the expression nodes, along the productions that build them.  In the
  pattern of an expression each of the ten binary layers has the operators of its
  production.
\<close>

function (sequential) pattern_primary_expression_node ::
  "primary_expression_node \<Rightarrow> item list"
and pattern_expression_list_node :: "expression_list_node \<Rightarrow> item list"
and pattern_expression_node :: "expression_node \<Rightarrow> item list"
and pattern_postfix_expression_node :: "postfix_expression_node \<Rightarrow> item list"
and pattern_prefix_expression_node :: "prefix_expression_node \<Rightarrow> item list" where
  "pattern_primary_expression_node Primary_empty = []"
| "pattern_primary_expression_node (Primary_identifier t) = [stored is_primary_token t]"
| "pattern_primary_expression_node (Primary_expression_list l) =
     dropped LeftParen # pattern_expression_list_node l @ [dropped RightParen]"
| "pattern_expression_list_node (Expression_list_node xs) =
     separated [dropped Comma]
       (map (\<lambda>(pass, e).
          (if pass = Out then [out_marker] else []) @
          (case e of None \<Rightarrow> [prefix_operators] | Some x \<Rightarrow> pattern_expression_node x)) xs)"
| "pattern_expression_node (Expression_node e) =
     pattern_binary_expression_node (\<lambda>t. is_assignment_operator (type t))
       (pattern_binary_expression_node (\<lambda>t. type t = LogicalOr)
         (pattern_binary_expression_node (\<lambda>t. type t = LogicalAnd)
           (pattern_binary_expression_node
             (\<lambda>t. type t = EqualComparison \<or> type t = NotEqualComparison)
             (pattern_binary_expression_node
               (\<lambda>t. type t = Less \<or> type t = LessEq \<or> type t = Greater \<or> type t = GreaterEq)
               (pattern_binary_expression_node (\<lambda>t. type t = Spaceship)
                 (pattern_binary_expression_node
                   (\<lambda>t. type t = LeftShift \<or> type t = RightShift)
                   (pattern_binary_expression_node (\<lambda>t. type t = Plus \<or> type t = Minus)
                     (pattern_binary_expression_node
                       (\<lambda>t. type t = Multiply \<or> type t = Slash \<or> type t = Modulo)
                       (pattern_binary_expression_node
                         (\<lambda>t. type t = Keyword \<and> (spelling t = ''is'' \<or> spelling t = ''as''))
                         pattern_prefix_expression_node)))))))))
       e"
| "pattern_postfix_expression_node (Postfix_expression_node e ops) =
     pattern_primary_expression_node e @
     concat (map (\<lambda>(op, l).
       stored is_postfix_token op #
       (case l of None \<Rightarrow> [] | Some x \<Rightarrow> pattern_expression_list_node x) @ closing op) ops)"
| "pattern_prefix_expression_node (Prefix_expression_node ops e) =
     map (stored (\<lambda>t. is_prefix_operator (type t))) ops @ pattern_postfix_expression_node e"
  by pat_completeness auto

termination
  apply (relation "measure (case_sum (case_sum size size) (case_sum size (case_sum size size)))")
       apply simp_all
    apply (auto simp: size_optional_member size_optional_member[where k=0, simplified] less_SucI
      size_layers_member)
  done

text \<open>The patterns of the ten binary layers, by name.\<close>

abbreviation pattern_is_as_expression_node ::
  "is_as_expression_node \<Rightarrow> item list" where
  "pattern_is_as_expression_node \<equiv>
     pattern_binary_expression_node
       (\<lambda>t. type t = Keyword \<and> (spelling t = ''is'' \<or> spelling t = ''as''))
       pattern_prefix_expression_node"

abbreviation pattern_multiplicative_expression_node ::
  "multiplicative_expression_node \<Rightarrow> item list" where
  "pattern_multiplicative_expression_node \<equiv>
     pattern_binary_expression_node
       (\<lambda>t. type t = Multiply \<or> type t = Slash \<or> type t = Modulo)
       pattern_is_as_expression_node"

abbreviation pattern_additive_expression_node ::
  "additive_expression_node \<Rightarrow> item list" where
  "pattern_additive_expression_node \<equiv>
     pattern_binary_expression_node
       (\<lambda>t. type t = Plus \<or> type t = Minus)
       pattern_multiplicative_expression_node"

abbreviation pattern_shift_expression_node ::
  "shift_expression_node \<Rightarrow> item list" where
  "pattern_shift_expression_node \<equiv>
     pattern_binary_expression_node
       (\<lambda>t. type t = LeftShift \<or> type t = RightShift)
       pattern_additive_expression_node"

abbreviation pattern_compare_expression_node ::
  "compare_expression_node \<Rightarrow> item list" where
  "pattern_compare_expression_node \<equiv>
     pattern_binary_expression_node
       (\<lambda>t. type t = Spaceship)
       pattern_shift_expression_node"

abbreviation pattern_relational_expression_node ::
  "relational_expression_node \<Rightarrow> item list" where
  "pattern_relational_expression_node \<equiv>
     pattern_binary_expression_node
       (\<lambda>t. type t = Less \<or> type t = LessEq \<or> type t = Greater \<or> type t = GreaterEq)
       pattern_compare_expression_node"

abbreviation pattern_equality_expression_node ::
  "equality_expression_node \<Rightarrow> item list" where
  "pattern_equality_expression_node \<equiv>
     pattern_binary_expression_node
       (\<lambda>t. type t = EqualComparison \<or> type t = NotEqualComparison)
       pattern_relational_expression_node"

abbreviation pattern_logical_and_expression_node ::
  "logical_and_expression_node \<Rightarrow> item list" where
  "pattern_logical_and_expression_node \<equiv>
     pattern_binary_expression_node
       (\<lambda>t. type t = LogicalAnd)
       pattern_equality_expression_node"

abbreviation pattern_logical_or_expression_node ::
  "logical_or_expression_node \<Rightarrow> item list" where
  "pattern_logical_or_expression_node \<equiv>
     pattern_binary_expression_node
       (\<lambda>t. type t = LogicalOr)
       pattern_logical_and_expression_node"

abbreviation pattern_assignment_expression_node ::
  "assignment_expression_node \<Rightarrow> item list" where
  "pattern_assignment_expression_node \<equiv>
     pattern_binary_expression_node
       (\<lambda>t. is_assignment_operator (type t))
       pattern_logical_or_expression_node"

text \<open>
  \<open>consumed p q\<close> are the tokens from the cursor of \<open>p\<close> up to the cursor of \<open>q\<close>: the
  tokens that a production consumed when it was started in \<open>p\<close> and returned in \<open>q\<close>.
\<close>

definition consumed :: "parser \<Rightarrow> parser \<Rightarrow> token list" where
  "consumed p q = take (nat (pos q - pos p)) (drop (nat (pos p)) (tokens p))"

text \<open>
  A production is followed from the state \<open>p0\<close> in which an enclosing production started.
  A state \<open>s\<close> is within the run from \<open>p0\<close> when it has the tokens of \<open>p0\<close> and its cursor
  is in range and not before that of \<open>p0\<close>.  A production that is started in \<open>s\<close> and
  returns in \<open>q\<close> with no new diagnostic has tracked a pattern when the tokens consumed
  from \<open>p0\<close> up to \<open>q\<close> are those consumed up to \<open>s\<close> followed by tokens that match the
  pattern.  \<open>reads\<close> is the outcome of a production whose result has the pattern \<open>pat\<close>.
\<close>

definition within :: "parser \<Rightarrow> parser \<Rightarrow> bool" where
  "within p0 s \<longleftrightarrow>
     tokens s = tokens p0 \<and> 0 \<le> pos p0 \<and> pos p0 \<le> pos s \<and> pos s \<le> int (length (tokens s))"

definition tracked :: "parser \<Rightarrow> parser \<Rightarrow> item list \<Rightarrow> parser \<Rightarrow> bool" where
  "tracked p0 s pat q \<longleftrightarrow>
     (length (errors q) = length (errors s) \<longrightarrow>
        (\<exists>ts. matches pat ts \<and> consumed p0 q = consumed p0 s @ ts))"

definition reads ::
  "parser \<Rightarrow> ('a option \<Rightarrow> item list) \<Rightarrow> parser \<Rightarrow> 'a option \<Rightarrow> parser \<Rightarrow> bool" where
  "reads p0 pat s x q \<longleftrightarrow> advances s q \<and> tracked p0 s (pat x) q"


section \<open>Rules for the outcomes of productions\<close>

text \<open>
  One rule for each way in which the productions are put together.  A proof about a
  production applies these rules along its definition and is left with facts about the
  states at its return points.
\<close>

lemma holds_Ret: "Q x q \<Longrightarrow> holds F (Ret x q) Q"
  by (simp add: holds_def)

lemma holds_Abort: "holds F Abort Q"
  by (simp add: holds_def)

lemma holds_Out_of_fuel: "F \<Longrightarrow> holds F Out_of_fuel Q"
  by (simp add: holds_def)

lemma holds_and_then:
  "holds F m Q' \<Longrightarrow> (\<And>y r. Q' y r \<Longrightarrow> holds F (f y r) Q) \<Longrightarrow> holds F (and_then m f) Q"
  by (cases m) (simp_all add: holds_def and_then_def)

lemma holds_with_curr:
  "(\<And>t. curr p = Some t \<Longrightarrow> holds F (f t) Q) \<Longrightarrow> holds F (with_curr p f) Q"
  by (cases "curr p") (simp_all add: holds_def with_curr_def)

lemma holds_with_error:
  "(\<And>r. error msg p = Some r \<Longrightarrow> holds F (f r) Q) \<Longrightarrow> holds F (with_error msg p f) Q"
  by (cases "error msg p") (simp_all add: holds_def with_error_def)

lemma holds_error_if:
  "(\<And>r. c \<Longrightarrow> error msg p = Some r \<Longrightarrow> holds F (f r) Q) \<Longrightarrow> (\<not> c \<Longrightarrow> holds F (f p) Q)
     \<Longrightarrow> holds F (error_if c msg p f) Q"
  by (cases "error msg p") (simp_all add: holds_def with_error_def error_if_def)

lemma holds_if:
  "(c \<Longrightarrow> holds F a Q) \<Longrightarrow> (\<not> c \<Longrightarrow> holds F b Q) \<Longrightarrow> holds F (if c then a else b) Q"
  by simp

lemma holds_case_option:
  "(x = None \<Longrightarrow> holds F a Q) \<Longrightarrow> (\<And>y. x = Some y \<Longrightarrow> holds F (b y) Q)
     \<Longrightarrow> holds F (case x of None \<Rightarrow> a | Some y \<Rightarrow> b y) Q"
  by (cases x) simp_all

lemmas holds_intros = holds_Ret holds_Abort holds_with_curr holds_with_error
  holds_error_if holds_if holds_case_option

text \<open>Facts about the cursor that the return points need.\<close>

lemma error_SomeD:
  "error msg p = Some r \<Longrightarrow>
     tokens r = tokens p \<and> parse_tree r = parse_tree p \<and> pos r = pos p \<and>
     length (errors r) = Suc (length (errors p))"
  by (auto simp: error_def split: option.splits)

lemma curr_SomeD: "curr p = Some t \<Longrightarrow> pos p \<noteq> int (length (tokens p))"
  by (auto simp: curr_def is_done_def split: if_splits)

lemmas leaf_defs = consumes_def advances_def in_range_def remaining_def next_tok_def

lemmas field_if =
  if_distrib[of tokens] if_distrib[of parse_tree] if_distrib[of errors] if_distrib[of pos]

lemma holds_weaken:
  "holds F m Q' \<Longrightarrow> (\<And>x q. Q' x q \<Longrightarrow> Q x q) \<Longrightarrow> holds F m Q"
  by (cases m) (simp_all add: holds_def)

lemma holds_case_access:
  "(x = Out_of_bounds \<Longrightarrow> holds F a Q) \<Longrightarrow> (\<And>y. x = Value y \<Longrightarrow> holds F (b y) Q)
     \<Longrightarrow> holds F (case x of Out_of_bounds \<Rightarrow> a | Value y \<Rightarrow> b y) Q"
  by (cases x) simp_all

subsection \<open>The expression productions advance the cursor and finish within their fuel\<close>

text \<open>
  Each lemma below is about one production started in a state \<open>p\<close> whose cursor is in
  range.  It assumes of the productions passed as arguments that they consume and finish on
  the states they are called on (states with fewer remaining tokens than \<open>p\<close>, or with at
  most as many), and it assumes enough fuel for the loops (\<open>F \<or> remaining p < k\<close>:
  nothing to assume when running out of fuel is accepted).  It concludes that the
  production consumes, and with \<open>F = False\<close> that it does not run out of fuel.  A loop
  iteration is entered only after a token was consumed or consumes one itself, so each
  iteration has fewer remaining tokens than the one before.
\<close>

lemma primary_expression_holds:
  assumes "in_range p"
    and "\<And>q. in_range q \<Longrightarrow> remaining q < remaining p \<Longrightarrow> holds F (el q) (consumes q)"
  shows "holds F (primary_expression el p) (consumes p)"
  unfolding primary_expression_def
  apply (intro holds_intros holds_and_then[OF assms(2)])
  using assms(1)
            apply (auto simp: leaf_defs dest!: error_SomeD curr_SomeD)
  done

lemma postfix_expression_loop_holds:
  assumes callee: "\<And>q. in_range q \<Longrightarrow> remaining q < remaining p0 \<Longrightarrow> holds F (el q) (consumes q)"
  shows "in_range p \<Longrightarrow> remaining p \<le> remaining p0 \<Longrightarrow> F \<or> remaining p < k \<Longrightarrow>
    holds F (postfix_expression_loop k el n p) (\<lambda>x q. advances p q)"
proof (induction k arbitrary: n p)
  case 0
  then show ?case by (simp add: holds_Out_of_fuel)
next
  case (Suc k)
  show ?case
    unfolding postfix_expression_loop.simps
    apply (intro holds_intros holds_and_then[OF callee] holds_weaken[OF Suc.IH])
    using Suc.prems
                        apply (auto simp: leaf_defs dest!: error_SomeD curr_SomeD)
    done
qed

lemma postfix_expression_holds:
  assumes "in_range p" and "F \<or> remaining p < k"
    and callee: "\<And>q. in_range q \<Longrightarrow> remaining q < remaining p \<Longrightarrow> holds F (el q) (consumes q)"
  shows "holds F (postfix_expression k el p) (consumes p)"
  unfolding postfix_expression_def
  apply (intro holds_intros holds_and_then[OF primary_expression_holds]
      holds_weaken[OF postfix_expression_loop_holds[where ?p0.0=p]] callee)
  using assms(1,2)
         apply (auto simp: leaf_defs)
  done

lemma prefix_expression_loop_holds:
  "in_range p \<Longrightarrow> F \<or> remaining p < k \<Longrightarrow>
    holds F (prefix_expression_loop k ops p) (\<lambda>x q. advances p q)"
proof (induction k arbitrary: ops p)
  case 0
  then show ?case by (simp add: holds_Out_of_fuel)
next
  case (Suc k)
  show ?case
    unfolding prefix_expression_loop.simps
    apply (intro holds_intros holds_weaken[OF Suc.IH])
    using Suc.prems
        apply (auto simp: leaf_defs dest!: curr_SomeD)
    done
qed

lemma prefix_expression_holds:
  assumes "in_range p" and "F \<or> remaining p < k"
    and callee: "\<And>q. in_range q \<Longrightarrow> remaining q < remaining p \<Longrightarrow> holds F (el q) (consumes q)"
  shows "holds F (prefix_expression k el p) (consumes p)"
  unfolding prefix_expression_def
  apply (intro holds_intros holds_and_then[OF prefix_expression_loop_holds]
      holds_and_then[OF postfix_expression_holds] callee)
  using assms(1,2)
         apply (auto simp: leaf_defs)
  done

lemma binary_expression_loop_holds:
  assumes callee: "\<And>q. in_range q \<Longrightarrow> remaining q < remaining p0 \<Longrightarrow> holds F (term_fn q) (consumes q)"
  shows "in_range p \<Longrightarrow> remaining p \<le> remaining p0 \<Longrightarrow> F \<or> remaining p < k \<Longrightarrow>
    holds F (binary_expression_loop k is_valid_op term_fn n p) (\<lambda>x q. advances p q)"
proof (induction k arbitrary: n p)
  case 0
  then show ?case by (simp add: holds_Out_of_fuel)
next
  case (Suc k)
  show ?case
    unfolding binary_expression_loop.simps
    apply (intro holds_intros holds_case_access holds_and_then[OF callee] holds_weaken[OF Suc.IH])
    using Suc.prems
                        apply (auto simp: leaf_defs dest!: error_SomeD curr_SomeD)
    done
qed

lemma binary_expression_holds:
  assumes "in_range p" and "F \<or> remaining p < k"
    and callee: "\<And>q. in_range q \<Longrightarrow> remaining q \<le> remaining p \<Longrightarrow> holds F (term_fn q) (consumes q)"
  shows "holds F (binary_expression k is_valid_op term_fn p) (consumes p)"
  unfolding binary_expression_def
  apply (intro holds_intros holds_and_then[OF callee]
      holds_weaken[OF binary_expression_loop_holds[where ?p0.0=p]] callee)
  using assms(1,2)
         apply (auto simp: leaf_defs)
  done

lemma is_as_expression_holds:
  assumes "in_range p" and "F \<or> remaining p < k"
    and callee: "\<And>q. in_range q \<Longrightarrow> remaining q < remaining p \<Longrightarrow> holds F (el q) (consumes q)"
  shows "holds F (is_as_expression k el p) (consumes p)"
  unfolding is_as_expression_def
  apply (rule binary_expression_holds[OF assms(1,2)])
  apply (rule prefix_expression_holds)
  using assms(2) apply (auto intro: callee)
  done

lemma multiplicative_expression_holds:
  assumes "in_range p" and "F \<or> remaining p < k"
    and callee: "\<And>q. in_range q \<Longrightarrow> remaining q < remaining p \<Longrightarrow> holds F (el q) (consumes q)"
  shows "holds F (multiplicative_expression k el p) (consumes p)"
  unfolding multiplicative_expression_def
  apply (rule binary_expression_holds[OF assms(1,2)])
  apply (rule is_as_expression_holds)
  using assms(2) apply (auto intro: callee)
  done

lemma additive_expression_holds:
  assumes "in_range p" and "F \<or> remaining p < k"
    and callee: "\<And>q. in_range q \<Longrightarrow> remaining q < remaining p \<Longrightarrow> holds F (el q) (consumes q)"
  shows "holds F (additive_expression k el p) (consumes p)"
  unfolding additive_expression_def
  apply (rule binary_expression_holds[OF assms(1,2)])
  apply (rule multiplicative_expression_holds)
  using assms(2) apply (auto intro: callee)
  done

lemma shift_expression_holds:
  assumes "in_range p" and "F \<or> remaining p < k"
    and callee: "\<And>q. in_range q \<Longrightarrow> remaining q < remaining p \<Longrightarrow> holds F (el q) (consumes q)"
  shows "holds F (shift_expression k el p) (consumes p)"
  unfolding shift_expression_def
  apply (rule binary_expression_holds[OF assms(1,2)])
  apply (rule additive_expression_holds)
  using assms(2) apply (auto intro: callee)
  done

lemma compare_expression_holds:
  assumes "in_range p" and "F \<or> remaining p < k"
    and callee: "\<And>q. in_range q \<Longrightarrow> remaining q < remaining p \<Longrightarrow> holds F (el q) (consumes q)"
  shows "holds F (compare_expression k el p) (consumes p)"
  unfolding compare_expression_def
  apply (rule binary_expression_holds[OF assms(1,2)])
  apply (rule shift_expression_holds)
  using assms(2) apply (auto intro: callee)
  done

lemma relational_expression_holds:
  assumes "in_range p" and "F \<or> remaining p < k"
    and callee: "\<And>q. in_range q \<Longrightarrow> remaining q < remaining p \<Longrightarrow> holds F (el q) (consumes q)"
  shows "holds F (relational_expression k el p) (consumes p)"
  unfolding relational_expression_def
  apply (rule binary_expression_holds[OF assms(1,2)])
  apply (rule compare_expression_holds)
  using assms(2) apply (auto intro: callee)
  done

lemma equality_expression_holds:
  assumes "in_range p" and "F \<or> remaining p < k"
    and callee: "\<And>q. in_range q \<Longrightarrow> remaining q < remaining p \<Longrightarrow> holds F (el q) (consumes q)"
  shows "holds F (equality_expression k el p) (consumes p)"
  unfolding equality_expression_def
  apply (rule binary_expression_holds[OF assms(1,2)])
  apply (rule relational_expression_holds)
  using assms(2) apply (auto intro: callee)
  done

lemma logical_and_expression_holds:
  assumes "in_range p" and "F \<or> remaining p < k"
    and callee: "\<And>q. in_range q \<Longrightarrow> remaining q < remaining p \<Longrightarrow> holds F (el q) (consumes q)"
  shows "holds F (logical_and_expression k el p) (consumes p)"
  unfolding logical_and_expression_def
  apply (rule binary_expression_holds[OF assms(1,2)])
  apply (rule equality_expression_holds)
  using assms(2) apply (auto intro: callee)
  done

lemma logical_or_expression_holds:
  assumes "in_range p" and "F \<or> remaining p < k"
    and callee: "\<And>q. in_range q \<Longrightarrow> remaining q < remaining p \<Longrightarrow> holds F (el q) (consumes q)"
  shows "holds F (logical_or_expression k el p) (consumes p)"
  unfolding logical_or_expression_def
  apply (rule binary_expression_holds[OF assms(1,2)])
  apply (rule logical_and_expression_holds)
  using assms(2) apply (auto intro: callee)
  done

lemma assignment_expression_holds:
  assumes "in_range p" and "F \<or> remaining p < k"
    and callee: "\<And>q. in_range q \<Longrightarrow> remaining q < remaining p \<Longrightarrow> holds F (el q) (consumes q)"
  shows "holds F (assignment_expression k el p) (consumes p)"
  unfolding assignment_expression_def
  apply (rule binary_expression_holds[OF assms(1,2)])
  apply (rule logical_or_expression_holds)
  using assms(2) apply (auto intro: callee)
  done

lemma expression_holds:
  assumes "in_range p" and "F \<or> remaining p < k"
    and callee: "\<And>q. in_range q \<Longrightarrow> remaining q < remaining p \<Longrightarrow> holds F (el q) (consumes q)"
  shows "holds F (expression k el p) (consumes p)"
  unfolding expression_def
  apply (intro holds_intros holds_and_then[OF assignment_expression_holds] callee)
  using assms(1,2)
         apply (auto simp: leaf_defs)
  done

lemma expression_list_loop_holds:
  assumes callee: "\<And>q. in_range q \<Longrightarrow> remaining q < remaining p0 \<Longrightarrow> holds F (expr_fn q) (consumes q)"
  shows "in_range p \<Longrightarrow> remaining p \<le> remaining p0 \<Longrightarrow> F \<or> remaining p < k \<Longrightarrow>
    holds F (expression_list_loop k expr_fn n p) (\<lambda>x q. x \<noteq> None \<and> advances p q)"
proof (induction k arbitrary: n p)
  case 0
  then show ?case by (simp add: holds_Out_of_fuel)
next
  case (Suc k)
  show ?case
    unfolding expression_list_loop.simps Let_def
    apply (intro holds_intros holds_and_then[OF callee] holds_weaken[OF Suc.IH])
    using Suc.prems
                        apply (auto simp: leaf_defs dest!: error_SomeD curr_SomeD)
    done
qed

lemma expression_list_from_holds:
  assumes "in_range p" and "F \<or> remaining p < k"
    and callee: "\<And>q. in_range q \<Longrightarrow> remaining q \<le> remaining p \<Longrightarrow> holds F (expr_fn q) (consumes q)"
  shows "holds F (expression_list_from k expr_fn p)
           (\<lambda>x q. consumes p x q \<and> (x = None \<longrightarrow> pos q = pos p))"
  unfolding expression_list_from_def Let_def
  apply (intro holds_intros holds_and_then[OF callee]
      holds_weaken[OF expression_list_loop_holds[where ?p0.0=p]] callee)
  using assms(1,2)
         apply (auto simp: leaf_defs dest!: curr_SomeD)
  done

text \<open>
  The cycle through nested expression lists: a nested list starts after an opening
  parenthesis or bracket was consumed, so one unit of fuel for each token suffices.
\<close>

lemma expression_list_holds:
  "in_range p \<Longrightarrow> F \<or> remaining p + 1 < k \<Longrightarrow>
     holds F (expression_list k p) (\<lambda>x q. consumes p x q \<and> (x = None \<longrightarrow> pos q = pos p))"
proof (induction k arbitrary: p)
  case 0
  then show ?case by (simp add: holds_Out_of_fuel)
next
  case (Suc k)
  show ?case
    unfolding expression_list.simps
    apply (rule expression_list_from_holds)
    using Suc.prems apply simp
    using Suc.prems apply force
    apply (rule expression_holds)
      apply simp
    using Suc.prems apply force
    apply (rule holds_weaken[OF Suc.IH])
    using Suc.prems apply auto
    done
qed

lemma expression_closed_holds:
  assumes "in_range p" and "F \<or> remaining p < k"
  shows "holds F (expression k (expression_list k) p) (consumes p)"
  apply (rule expression_holds[OF assms])
  apply (rule holds_weaken[OF expression_list_holds])
  using assms(2) apply auto
  done

subsection \<open>Names, statements and declarations advance the cursor and finish within their fuel\<close>

lemma unqualified_id_holds:
  assumes "in_range p"
  shows "holds F (unqualified_id p) (\<lambda>x q. consumes p x q \<and> (x = None \<longrightarrow> q = p))"
  unfolding unqualified_id_def
  apply (intro holds_intros)
  using assms apply (auto simp: leaf_defs dest!: curr_SomeD)
  done

lemma qualified_id_loop_holds:
  "in_range p \<Longrightarrow> F \<or> remaining p < k \<Longrightarrow>
    holds F (qualified_id_loop k n p)
      (\<lambda>x q. advances p q \<and> (x = None \<longrightarrow> length (errors p) < length (errors q)))"
proof (induction k arbitrary: n p)
  case 0
  then show ?case by (simp add: holds_Out_of_fuel)
next
  case (Suc k)
  show ?case
    unfolding qualified_id_loop.simps
    apply (intro holds_intros holds_and_then[OF unqualified_id_holds] holds_weaken[OF Suc.IH])
    using Suc.prems
            apply (auto simp: leaf_defs dest!: error_SomeD curr_SomeD)
    done
qed

lemma qualified_id_holds:
  assumes "in_range p" and "F \<or> remaining p < k"
  shows "holds F (qualified_id k p)
    (\<lambda>x q. consumes p x q \<and>
       (x = None \<longrightarrow> pos q = pos p \<or> length (errors p) < length (errors q)))"
  unfolding qualified_id_def Let_def
  apply (intro holds_intros holds_and_then[OF unqualified_id_holds]
      holds_weaken[OF qualified_id_loop_holds])
  using assms
         apply (auto simp: leaf_defs dest!: curr_SomeD)
  done

lemma id_expression_holds:
  assumes "in_range p" and "F \<or> remaining p < k"
  shows "holds F (id_expression k p) (consumes p)"
  unfolding id_expression_def
  apply (intro holds_intros holds_and_then[OF qualified_id_holds]
      holds_and_then[OF unqualified_id_holds])
  using assms
         apply (auto simp: leaf_defs)
  done

lemma expression_statement_holds:
  assumes "in_range p" and "F \<or> remaining p < k"
  shows "holds F (expression_statement k semicolon_required p) (consumes p)"
  unfolding expression_statement_def
  apply (intro holds_intros holds_and_then[OF expression_closed_holds])
  using assms
         apply (auto simp: leaf_defs dest!: error_SomeD curr_SomeD)
  done

lemma compound_statement_loop_holds:
  assumes callee: "\<And>q b. in_range q \<Longrightarrow> remaining q \<le> remaining p0 \<Longrightarrow>
      holds F (statement_fn b q) (consumes q)"
  shows "in_range p \<Longrightarrow> remaining p \<le> remaining p0 \<Longrightarrow> F \<or> remaining p < k \<Longrightarrow>
    holds F (compound_statement_loop k statement_fn n p) (consumes p)"
proof (induction k arbitrary: n p)
  case 0
  then show ?case by (simp add: holds_Out_of_fuel)
next
  case (Suc k)
  show ?case
    unfolding compound_statement_loop.simps
    apply (intro holds_intros holds_and_then[OF callee] holds_weaken[OF Suc.IH])
    using Suc.prems
            apply (auto simp: leaf_defs dest!: error_SomeD curr_SomeD)
    done
qed

lemma compound_statement_holds:
  assumes "in_range p" and "F \<or> remaining p < k"
    and callee: "\<And>q b. in_range q \<Longrightarrow> remaining q < remaining p \<Longrightarrow>
      holds F (statement_fn b q) (consumes q)"
  shows "holds F (compound_statement k statement_fn p) (consumes p)"
  unfolding compound_statement_def
  apply (intro holds_intros
      holds_weaken[OF compound_statement_loop_holds[where ?p0.0="next_tok 1 p"]] callee)
  using assms(1,2)
         apply (auto simp: leaf_defs dest!: curr_SomeD)
  done

lemma selection_statement_holds:
  assumes "in_range p" and "F \<or> remaining p < k"
    and callee: "\<And>q. in_range q \<Longrightarrow> remaining q < remaining p \<Longrightarrow>
      holds F (compound_fn q) (consumes q)"
  shows "holds F (selection_statement k compound_fn p) (consumes p)"
  unfolding selection_statement_def Let_def
  apply (intro holds_intros holds_and_then[OF expression_closed_holds]
      holds_and_then[OF callee])
  using assms(1,2)
         apply (auto simp: leaf_defs field_if dest!: error_SomeD curr_SomeD split: if_splits)
  done

lemma statement_from_holds:
  assumes "in_range p" and "F \<or> remaining p < k"
    and stmt: "\<And>q b. in_range q \<Longrightarrow> remaining q < remaining p \<Longrightarrow>
      holds F (statement_fn b q) (consumes q)"
    and decl: "\<And>q b. in_range q \<Longrightarrow> remaining q \<le> remaining p \<Longrightarrow>
      holds F (declaration_fn b q) (consumes q)"
  shows "holds F (statement_from k statement_fn declaration_fn semicolon_required p) (consumes p)"
  unfolding statement_from_def
  apply (intro holds_intros holds_and_then[OF selection_statement_holds]
      holds_and_then[OF compound_statement_holds] holds_and_then[OF decl]
      holds_and_then[OF expression_statement_holds] compound_statement_holds stmt)
  using assms(1,2)
         apply (auto simp: leaf_defs)
  done

lemma parameter_declaration_holds:
  assumes "in_range p"
    and decl: "\<And>q b. in_range q \<Longrightarrow> remaining q \<le> remaining p \<Longrightarrow>
      holds F (declaration_fn b q) (consumes q)"
  shows "holds F (parameter_declaration declaration_fn p) (consumes p)"
  unfolding parameter_declaration_def Let_def
  apply (intro holds_intros holds_and_then[OF decl])
  using assms(1)
         apply (auto simp: leaf_defs field_if dest!: curr_SomeD split: if_splits)
  done

lemma parameter_declaration_list_close_holds:
  assumes "in_range p"
  shows "holds F (parameter_declaration_list_close n p) (consumes p)"
  unfolding parameter_declaration_list_close_def
  apply (intro holds_intros)
  using assms(1)
         apply (auto simp: leaf_defs dest!: error_SomeD curr_SomeD)
  done

lemma parameter_declaration_list_loop_holds:
  assumes callee: "\<And>q. in_range q \<Longrightarrow> remaining q \<le> remaining p0 \<Longrightarrow>
      holds F (param_fn q) (consumes q)"
  shows "in_range p \<Longrightarrow> remaining p \<le> remaining p0 \<Longrightarrow> F \<or> remaining p < k \<Longrightarrow>
    holds F (parameter_declaration_list_loop k param_fn n p) (\<lambda>x q. advances p q)"
proof (induction k arbitrary: n p)
  case 0
  then show ?case by (simp add: holds_Out_of_fuel)
next
  case (Suc k)
  show ?case
    unfolding parameter_declaration_list_loop.simps Let_def
    apply (intro holds_intros holds_and_then[OF callee] holds_weaken[OF Suc.IH]
        holds_weaken[OF parameter_declaration_list_close_holds])
    using Suc.prems
            apply (auto simp: leaf_defs dest!: error_SomeD curr_SomeD)
    done
qed

lemma parameter_declaration_list_holds:
  assumes "in_range p" and "F \<or> remaining p < k"
    and callee: "\<And>q. in_range q \<Longrightarrow> remaining q < remaining p \<Longrightarrow>
      holds F (param_fn q) (consumes q)"
  shows "holds F (parameter_declaration_list k param_fn p) (consumes p)"
  unfolding parameter_declaration_list_def
  apply (intro holds_intros
      holds_weaken[OF parameter_declaration_list_loop_holds[where ?p0.0="next_tok 1 p"]] callee)
  using assms(1,2)
         apply (auto simp: leaf_defs dest!: curr_SomeD)
  done

lemma declaration_rest_holds:
  assumes "in_range p"
    and stmt: "\<And>q b. in_range q \<Longrightarrow> remaining q < remaining p \<Longrightarrow>
      holds F (statement_fn b q) (consumes q)"
  shows "holds F (declaration_rest statement_fn semicolon_required name ty p)
    (\<lambda>x q. advances p q \<and> (x = None \<longrightarrow> length (errors p) < length (errors q)))"
  unfolding declaration_rest_def
  apply (intro holds_intros holds_and_then[OF stmt])
  using assms(1)
         apply (auto simp: leaf_defs dest!: error_SomeD curr_SomeD)
  done

lemma declaration_from_holds:
  assumes "in_range p" and "F \<or> remaining p < k"
    and stmt: "\<And>q b. in_range q \<Longrightarrow> remaining q < remaining p \<Longrightarrow>
      holds F (statement_fn b q) (consumes q)"
    and decl: "\<And>q b. in_range q \<Longrightarrow> remaining q < remaining p \<Longrightarrow>
      holds F (declaration_fn b q) (consumes q)"
  shows "holds F (declaration_from k statement_fn declaration_fn semicolon_required p)
    (rewinds_or_reports p)"
  unfolding declaration_from_def Let_def
  apply (intro holds_intros holds_and_then[OF unqualified_id_holds]
      holds_and_then[OF parameter_declaration_list_holds]
      holds_and_then[OF id_expression_holds]
      holds_weaken[OF declaration_rest_holds]
      parameter_declaration_holds stmt decl)
  using assms(1,2)
         apply (auto simp: rewinds_or_reports_def leaf_defs dest!: curr_SomeD)
  done

lemma rewinds_or_reports_consumes: "rewinds_or_reports p x q \<Longrightarrow> consumes p x q"
  by (simp add: rewinds_or_reports_def)

text \<open>
  The cycle through statements and declarations: a statement tries a declaration at the
  same position, and a declaration parses a nested statement or declaration only after
  its name and colon were consumed, so two units of fuel for each token suffice.
\<close>

lemma statement_declaration_holds:
  "(\<forall>p b. in_range p \<longrightarrow> F \<or> 2 * remaining p + 3 < k \<longrightarrow>
       holds F (statement k b p) (consumes p)) \<and>
   (\<forall>p b. in_range p \<longrightarrow> F \<or> 2 * remaining p + 2 < k \<longrightarrow>
       holds F (declaration_prod k b p) (rewinds_or_reports p))"
proof (induction k)
  case 0
  show ?case by (simp add: holds_Out_of_fuel)
next
  case (Suc k)
  have stmt: "holds F (statement k b q) (consumes q)"
    if "in_range q" "F \<or> 2 * remaining q + 3 < k" for q b
    using Suc that by blast
  have decl: "holds F (declaration_prod k b q) (consumes q)"
    if "in_range q" "F \<or> 2 * remaining q + 2 < k" for q b
    using Suc that by (blast intro: holds_weaken rewinds_or_reports_consumes)
  have 1: "holds F (statement (Suc k) b p) (consumes p)"
    if p: "in_range p" "F \<or> 2 * remaining p + 3 < Suc k" for p b
    unfolding statement.simps
    apply (rule statement_from_holds)
       apply (rule p(1))
    using p(2) apply force
     apply (rule stmt)
      apply assumption
    using p(2) apply force
    apply (rule decl)
     apply assumption
    using p(2) apply force
    done
  have 2: "holds F (declaration_prod (Suc k) b p) (rewinds_or_reports p)"
    if p: "in_range p" "F \<or> 2 * remaining p + 2 < Suc k" for p b
    unfolding declaration_prod.simps
    apply (rule declaration_from_holds)
       apply (rule p(1))
    using p(2) apply force
     apply (rule stmt)
      apply assumption
    using p(2) apply force
    apply (rule decl)
     apply assumption
    using p(2) apply force
    done
  from 1 2 show ?case by blast
qed

lemma statement_holds:
  "in_range p \<Longrightarrow> F \<or> 2 * remaining p + 3 < k \<Longrightarrow> holds F (statement k b p) (consumes p)"
  using statement_declaration_holds[of F k] by blast

lemma declaration_prod_holds:
  "in_range p \<Longrightarrow> F \<or> 2 * remaining p + 2 < k \<Longrightarrow>
     holds F (declaration_prod k b p) (rewinds_or_reports p)"
  using statement_declaration_holds[of F k] by blast

lemma translation_unit_loop_holds:
  assumes callee: "\<And>q. in_range q \<Longrightarrow> remaining q \<le> remaining p0 \<Longrightarrow>
      holds F (declaration_fn q) (consumes q)"
  shows "in_range p \<Longrightarrow> remaining p \<le> remaining p0 \<Longrightarrow> F \<or> remaining p < k \<Longrightarrow>
    holds F (translation_unit_loop k declaration_fn n p) (\<lambda>x q. advances p q)"
proof (induction k arbitrary: n p)
  case 0
  then show ?case by (simp add: holds_Out_of_fuel)
next
  case (Suc k)
  show ?case
    unfolding translation_unit_loop.simps
    apply (intro holds_intros holds_and_then[OF callee] holds_weaken[OF Suc.IH])
    using Suc.prems
            apply (auto simp: leaf_defs)
    done
qed

lemma translation_unit_holds:
  assumes "in_range p" and "F \<or> 2 * remaining p + 2 < k"
  shows "holds F (translation_unit k p) (\<lambda>x q. advances p q)"
  unfolding translation_unit_def
  apply (rule translation_unit_loop_holds[where ?p0.0=p])
     apply (rule holds_weaken[OF declaration_prod_holds])
  using assms apply (auto intro: rewinds_or_reports_consumes)
  done

lemma parse_holds:
  assumes "F \<or> 2 * length toks + 2 < k"
  shows "holds F (parse k toks pr)
    (\<lambda>b q. tokens q = toks \<and> length (errors pr) \<le> length (errors q) \<and>
            (b \<longleftrightarrow> is_done q) \<and> (\<not> b \<longrightarrow> length (errors pr) < length (errors q)))"
  unfolding parse_def Let_def
  apply (intro holds_intros holds_and_then[OF translation_unit_holds])
  using assms
      apply (auto simp: leaf_defs is_done_def dest!: error_SomeD)
  done

subsection \<open>The operators of a binary node belong to its layer\<close>

lemma binary_expression_loop_layer:
  assumes callee: "\<And>q. holds True (term_fn q) (\<lambda>x r. yields sub x)"
  shows "layer_ok is_valid_op sub n \<Longrightarrow>
    holds True (binary_expression_loop k is_valid_op term_fn n p)
      (\<lambda>x q. yields (layer_ok is_valid_op sub) x)"
proof (induction k arbitrary: n p)
  case 0
  then show ?case by (simp add: holds_Out_of_fuel)
next
  case (Suc k)
  show ?case
    unfolding binary_expression_loop.simps
    apply (intro holds_intros holds_case_access holds_and_then[OF callee] Suc.IH)
    using Suc.prems
         apply (auto simp: yields_def layer_ok_def)
    done
qed

lemma binary_expression_layer:
  assumes callee: "\<And>q. holds True (term_fn q) (\<lambda>x r. yields sub x)"
  shows "holds True (binary_expression k is_valid_op term_fn p)
      (\<lambda>x q. yields (layer_ok is_valid_op sub) x)"
  unfolding binary_expression_def
  apply (intro holds_intros holds_and_then[OF callee] binary_expression_loop_layer callee)
   apply (auto simp: yields_def layer_ok_def)
  done

lemma holds_top: "holds True m (\<lambda>x r. yields (\<lambda>_. True) x)"
  by (cases m) (auto simp: holds_def yields_def split: option.splits)

lemma is_as_expression_layer:
  "holds True (is_as_expression k el p) (\<lambda>x q. yields is_as_ok x)"
  unfolding is_as_expression_def is_as_ok_def
  by (rule binary_expression_layer) (rule holds_top)

lemma multiplicative_expression_layer:
  "holds True (multiplicative_expression k el p) (\<lambda>x q. yields multiplicative_ok x)"
  unfolding multiplicative_expression_def multiplicative_ok_def
  by (rule binary_expression_layer) (rule is_as_expression_layer)

lemma additive_expression_layer:
  "holds True (additive_expression k el p) (\<lambda>x q. yields additive_ok x)"
  unfolding additive_expression_def additive_ok_def
  by (rule binary_expression_layer) (rule multiplicative_expression_layer)

lemma shift_expression_layer:
  "holds True (shift_expression k el p) (\<lambda>x q. yields shift_ok x)"
  unfolding shift_expression_def shift_ok_def
  by (rule binary_expression_layer) (rule additive_expression_layer)

lemma compare_expression_layer:
  "holds True (compare_expression k el p) (\<lambda>x q. yields compare_ok x)"
  unfolding compare_expression_def compare_ok_def
  by (rule binary_expression_layer) (rule shift_expression_layer)

lemma relational_expression_layer:
  "holds True (relational_expression k el p) (\<lambda>x q. yields relational_ok x)"
  unfolding relational_expression_def relational_ok_def
  by (rule binary_expression_layer) (rule compare_expression_layer)

lemma equality_expression_layer:
  "holds True (equality_expression k el p) (\<lambda>x q. yields equality_ok x)"
  unfolding equality_expression_def equality_ok_def
  by (rule binary_expression_layer) (rule relational_expression_layer)

lemma logical_and_expression_layer:
  "holds True (logical_and_expression k el p) (\<lambda>x q. yields logical_and_ok x)"
  unfolding logical_and_expression_def logical_and_ok_def
  by (rule binary_expression_layer) (rule equality_expression_layer)

lemma logical_or_expression_layer:
  "holds True (logical_or_expression k el p) (\<lambda>x q. yields logical_or_ok x)"
  unfolding logical_or_expression_def logical_or_ok_def
  by (rule binary_expression_layer) (rule logical_and_expression_layer)

lemma assignment_expression_layer:
  "holds True (assignment_expression k el p) (\<lambda>x q. yields assignment_ok x)"
  unfolding assignment_expression_def assignment_ok_def
  by (rule binary_expression_layer) (rule logical_or_expression_layer)

lemma expression_layers:
  "holds True (expression k el p) (\<lambda>x q. yields (\<lambda>e. assignment_ok (expression_expr e)) x)"
  unfolding expression_def
  apply (intro holds_intros holds_and_then[OF assignment_expression_layer])
   apply (auto simp: yields_def)
  done

subsection \<open>The tokens that an expression production consumes are those of its node\<close>

text \<open>Facts about patterns and about the tokens between two cursors.\<close>

lemma matches_skip: "matches ps ts \<Longrightarrow> matches (Many P # ps) ts"
  by (cases ts) simp_all

lemma matches_append: "matches a xs \<Longrightarrow> matches b ys \<Longrightarrow> matches (a @ b) (xs @ ys)"
proof (induction a xs rule: matches.induct)
  case (4 P ps)
  then show ?case by (simp add: matches_skip)
qed auto

lemma matches_Many: "list_all P ts \<Longrightarrow> matches [Many P] ts"
  by (induction ts) simp_all

lemma matches_stored: "list_all role ts \<Longrightarrow> matches (map (stored role) ts) ts"
  by (induction ts) (simp_all add: stored_def)

lemma matches_Cons: "P t \<Longrightarrow> matches ps ts \<Longrightarrow> matches (One P # ps) (t # ts)"
  by simp

lemma next_tok_fields:
  "tokens (next_tok n s) = tokens s" "errors (next_tok n s) = errors s"
  "parse_tree (next_tok n s) = parse_tree s"
  "pos (next_tok n s) = min (pos s + n) (int (length (tokens s)))"
  by (simp_all add: next_tok_def)

lemma consumed_next:
  assumes "curr s \<noteq> None" and "tokens s = tokens p0" and "0 \<le> pos p0" and "pos p0 \<le> pos s"
  shows "consumed p0 (next_tok 1 s) = consumed p0 s @ [the (curr s)]"
proof -
  from assms(1) have b: "0 \<le> pos s" "pos s < int (length (tokens s))"
    and c: "the (curr s) = tokens s ! nat (pos s)"
    by (auto simp: curr_def is_done_def split: if_splits)
  define i where "i = nat (pos p0)"
  define n where "n = nat (pos s - pos p0)"
  have n: "n < length (drop i (tokens p0))"
    using assms b by (simp add: n_def i_def; linarith?)
  have 1: "nat (pos (next_tok 1 s) - pos p0) = Suc n"
    using assms b by (simp add: next_tok_def n_def; linarith?)
  have 3: "i + n = nat (pos s)"
    using assms b by (simp add: n_def i_def; linarith?)
  have 4: "i \<le> length (tokens p0)"
    using assms b by (simp add: i_def; linarith?)
  have 2: "drop i (tokens p0) ! n = tokens s ! nat (pos s)"
    using 3 4 assms(2) by simp
  show ?thesis
    unfolding consumed_def 1 c
    using take_Suc_conv_app_nth[OF n] 2 by (simp add: i_def n_def)
qed

lemma consumed_rewind: "consumed p0 (q\<lparr>pos := pos s\<rparr>) = consumed p0 s"
  by (simp add: consumed_def)

lemma consumed_self: "consumed p p = []"
  by (simp add: consumed_def)

text \<open>
  The rules for reading the current token and for reporting a diagnostic, with the facts
  about the cursor that the return points need.
\<close>

lemma holds_with_curr_bounds:
  "(\<And>t. curr p = Some t \<Longrightarrow> 0 \<le> pos p \<Longrightarrow> pos p < int (length (tokens p)) \<Longrightarrow> holds F (f t) Q)
     \<Longrightarrow> holds F (with_curr p f) Q"
  by (cases "curr p") (auto simp: holds_def with_curr_def curr_def is_done_def split: if_splits)

lemma holds_with_error_fields:
  "(\<And>r. tokens r = tokens p \<Longrightarrow> parse_tree r = parse_tree p \<Longrightarrow> pos r = pos p \<Longrightarrow>
        length (errors r) = Suc (length (errors p)) \<Longrightarrow> holds F (f r) Q)
     \<Longrightarrow> holds F (with_error msg p f) Q"
  by (cases "error msg p") (auto simp: holds_def with_error_def dest!: error_SomeD)

lemma holds_error_if_fields:
  "(\<And>r. c \<Longrightarrow> tokens r = tokens p \<Longrightarrow> parse_tree r = parse_tree p \<Longrightarrow> pos r = pos p \<Longrightarrow>
        length (errors r) = Suc (length (errors p)) \<Longrightarrow> holds F (f r) Q)
     \<Longrightarrow> (\<not> c \<Longrightarrow> holds F (f p) Q)
     \<Longrightarrow> holds F (error_if c msg p f) Q"
  by (cases "error msg p") (auto simp: holds_def with_error_def error_if_def dest!: error_SomeD)

lemmas reads_intros = holds_Ret holds_Abort holds_with_curr_bounds holds_with_error_fields
  holds_error_if_fields holds_if holds_case_option

lemmas reads_defs = reads_def tracked_def within_def advances_def next_tok_fields consumed_next
  consumed_rewind

text \<open>
  Each lemma below is about one production started in a state \<open>p\<close> within the run from
  \<open>p0\<close>.  It assumes of the productions passed as arguments that they read the pattern of
  their result, and concludes the same of the production.  A loop is followed with the
  node that it has built so far: the tokens consumed since the production started in \<open>s0\<close>
  match the pattern of that node.
\<close>

lemma primary_expression_reads:
  assumes "within p0 p"
    and callee: "\<And>s. within p0 s \<Longrightarrow>
        holds True (el s) (reads p0 (case_option [] pattern_expression_list_node) s)"
  shows "holds True (primary_expression el p)
           (reads p0 (case_option [] pattern_primary_expression_node) p)"
  unfolding primary_expression_def
  apply (intro reads_intros holds_and_then[OF callee])
  using assms(1)
            apply (auto simp: reads_defs is_primary_token_def stored_def dropped_def
      intro!: matches_append)
  done

lemma pattern_postfix_expression_node_snoc:
  "pattern_postfix_expression_node
     (Postfix_expression_node (postfix_expr n) (postfix_ops n @ [(op, l)])) =
   pattern_postfix_expression_node n @
     stored is_postfix_token op #
     (case l of None \<Rightarrow> [] | Some x \<Rightarrow> pattern_expression_list_node x) @ closing op"
  by (cases n) simp

lemma separated_snoc: "xs \<noteq> [] \<Longrightarrow> separated sep (xs @ [y]) = separated sep xs @ sep @ y"
  by (induction sep xs rule: separated.induct) simp_all

lemma pattern_expression_list_node_snoc:
  "expressions n \<noteq> [] \<Longrightarrow>
   pattern_expression_list_node (Expression_list_node (expressions n @ [(pass, e)])) =
   pattern_expression_list_node n @
     dropped Comma #
     (if pass = Out then [out_marker] else []) @
     (case e of None \<Rightarrow> [prefix_operators] | Some x \<Rightarrow> pattern_expression_node x)"
  by (cases n) (simp add: separated_snoc)

lemma pattern_binary_expression_node_snoc:
  "pattern_binary_expression_node is_op tpat
     (Binary_expression_node (expr n) (terms n @ [(op, x)])) =
   pattern_binary_expression_node is_op tpat n @ stored is_op op # tpat x"
  by (simp add: pattern_binary_expression_node_def)

lemma prefix_expression_loop_reads:
  "within p0 p \<Longrightarrow>
     holds True (prefix_expression_loop k ops p)
       (\<lambda>x q. advances p q \<and> length (errors q) = length (errors p) \<and>
          (\<exists>ts. x = ops @ ts \<and> list_all (\<lambda>t. is_prefix_operator (type t)) ts \<and>
             consumed p0 q = consumed p0 p @ ts))"
proof (induction k arbitrary: ops p)
  case 0
  then show ?case by (simp add: holds_Out_of_fuel)
next
  case (Suc k)
  show ?case
    unfolding prefix_expression_loop.simps
    apply (intro reads_intros holds_weaken[OF Suc.IH])
    using Suc.prems
      apply (auto simp: reads_defs)
    done
qed

lemma postfix_expression_loop_reads:
  assumes callee: "\<And>s. within p0 s \<Longrightarrow>
      holds True (el s) (reads p0 (case_option [] pattern_expression_list_node) s)"
  shows "within p0 p \<Longrightarrow> advances s0 p \<Longrightarrow>
    tracked p0 s0 (pattern_postfix_expression_node n) p \<Longrightarrow>
    holds True (postfix_expression_loop k el n p)
      (\<lambda>x q. advances p q \<and>
         tracked p0 s0 (case_option [] pattern_postfix_expression_node x) q)"
proof (induction k arbitrary: n p)
  case 0
  then show ?case by (simp add: holds_Out_of_fuel)
next
  case (Suc k)
  show ?case
    unfolding postfix_expression_loop.simps
    apply (intro reads_intros holds_and_then[OF callee] holds_weaken[OF Suc.IH])
    using Suc.prems
                        apply (auto simp: reads_defs pattern_postfix_expression_node_snoc
        is_postfix_token_def stored_def dropped_def closing_def
        simp del: pattern_postfix_expression_node.simps intro!: matches_append)
    done
qed

lemma postfix_expression_reads:
  assumes "within p0 p"
    and callee: "\<And>s. within p0 s \<Longrightarrow>
      holds True (el s) (reads p0 (case_option [] pattern_expression_list_node) s)"
  shows "holds True (postfix_expression k el p)
           (reads p0 (case_option [] pattern_postfix_expression_node) p)"
  unfolding postfix_expression_def
  apply (intro reads_intros holds_and_then[OF primary_expression_reads[OF _ callee]]
      holds_weaken[OF postfix_expression_loop_reads[OF callee, where ?s0.0=p]])
  using assms(1)
         apply (auto simp: reads_defs)
  done

lemma prefix_expression_reads:
  assumes "within p0 p"
    and callee: "\<And>s. within p0 s \<Longrightarrow>
      holds True (el s) (reads p0 (case_option [] pattern_expression_list_node) s)"
  shows "holds True (prefix_expression k el p)
           (reads p0 (case_option [prefix_operators] pattern_prefix_expression_node) p)"
  unfolding prefix_expression_def
  apply (intro reads_intros holds_and_then[OF prefix_expression_loop_reads[where ?p0.0=p0]]
      holds_and_then[OF postfix_expression_reads[OF _ callee]])
  using assms(1)
         apply (auto simp: reads_defs prefix_operators_def
      intro!: matches_append matches_stored matches_Many)
  done

lemma binary_expression_loop_reads:
  assumes callee: "\<And>s. within p0 s \<Longrightarrow>
      holds True (term_fn s) (reads p0 (case_option npat tpat) s)"
  shows "within p0 p \<Longrightarrow> advances s0 p \<Longrightarrow>
    tracked p0 s0 (pattern_binary_expression_node is_valid_op tpat n) p \<Longrightarrow>
    holds True (binary_expression_loop k is_valid_op term_fn n p)
      (\<lambda>x q. advances p q \<and>
         tracked p0 s0 (case_option npat (pattern_binary_expression_node is_valid_op tpat) x) q)"
proof (induction k arbitrary: n p)
  case 0
  then show ?case by (simp add: holds_Out_of_fuel)
next
  case (Suc k)
  show ?case
    unfolding binary_expression_loop.simps
    apply (intro reads_intros holds_case_access holds_and_then[OF callee]
        holds_weaken[OF Suc.IH])
    using Suc.prems
                        apply (auto simp: reads_defs pattern_binary_expression_node_snoc stored_def
        intro!: matches_append)
    done
qed

lemma binary_expression_reads:
  assumes "within p0 p"
    and callee: "\<And>s. within p0 s \<Longrightarrow>
      holds True (term_fn s) (reads p0 (case_option npat tpat) s)"
  shows "holds True (binary_expression k is_valid_op term_fn p)
           (reads p0 (case_option npat (pattern_binary_expression_node is_valid_op tpat)) p)"
  unfolding binary_expression_def
  apply (intro reads_intros holds_and_then[OF callee]
      holds_weaken[OF binary_expression_loop_reads[OF callee, where ?s0.0=p]])
  using assms(1)
         apply (auto simp: reads_defs pattern_binary_expression_node_def)
  done

lemma is_as_expression_reads:
  assumes "within p0 p"
    and callee: "\<And>s. within p0 s \<Longrightarrow>
      holds True (el s) (reads p0 (case_option [] pattern_expression_list_node) s)"
  shows "holds True (is_as_expression k el p)
           (reads p0 (case_option [prefix_operators] pattern_is_as_expression_node) p)"
  unfolding is_as_expression_def
  by (rule binary_expression_reads[OF assms(1)]) (rule prefix_expression_reads[OF _ callee])

lemma multiplicative_expression_reads:
  assumes "within p0 p"
    and callee: "\<And>s. within p0 s \<Longrightarrow>
      holds True (el s) (reads p0 (case_option [] pattern_expression_list_node) s)"
  shows "holds True (multiplicative_expression k el p)
           (reads p0 (case_option [prefix_operators] pattern_multiplicative_expression_node) p)"
  unfolding multiplicative_expression_def
  by (rule binary_expression_reads[OF assms(1)]) (rule is_as_expression_reads[OF _ callee])

lemma additive_expression_reads:
  assumes "within p0 p"
    and callee: "\<And>s. within p0 s \<Longrightarrow>
      holds True (el s) (reads p0 (case_option [] pattern_expression_list_node) s)"
  shows "holds True (additive_expression k el p)
           (reads p0 (case_option [prefix_operators] pattern_additive_expression_node) p)"
  unfolding additive_expression_def
  by (rule binary_expression_reads[OF assms(1)]) (rule multiplicative_expression_reads[OF _ callee])

lemma shift_expression_reads:
  assumes "within p0 p"
    and callee: "\<And>s. within p0 s \<Longrightarrow>
      holds True (el s) (reads p0 (case_option [] pattern_expression_list_node) s)"
  shows "holds True (shift_expression k el p)
           (reads p0 (case_option [prefix_operators] pattern_shift_expression_node) p)"
  unfolding shift_expression_def
  by (rule binary_expression_reads[OF assms(1)]) (rule additive_expression_reads[OF _ callee])

lemma compare_expression_reads:
  assumes "within p0 p"
    and callee: "\<And>s. within p0 s \<Longrightarrow>
      holds True (el s) (reads p0 (case_option [] pattern_expression_list_node) s)"
  shows "holds True (compare_expression k el p)
           (reads p0 (case_option [prefix_operators] pattern_compare_expression_node) p)"
  unfolding compare_expression_def
  by (rule binary_expression_reads[OF assms(1)]) (rule shift_expression_reads[OF _ callee])

lemma relational_expression_reads:
  assumes "within p0 p"
    and callee: "\<And>s. within p0 s \<Longrightarrow>
      holds True (el s) (reads p0 (case_option [] pattern_expression_list_node) s)"
  shows "holds True (relational_expression k el p)
           (reads p0 (case_option [prefix_operators] pattern_relational_expression_node) p)"
  unfolding relational_expression_def
  by (rule binary_expression_reads[OF assms(1)]) (rule compare_expression_reads[OF _ callee])

lemma equality_expression_reads:
  assumes "within p0 p"
    and callee: "\<And>s. within p0 s \<Longrightarrow>
      holds True (el s) (reads p0 (case_option [] pattern_expression_list_node) s)"
  shows "holds True (equality_expression k el p)
           (reads p0 (case_option [prefix_operators] pattern_equality_expression_node) p)"
  unfolding equality_expression_def
  by (rule binary_expression_reads[OF assms(1)]) (rule relational_expression_reads[OF _ callee])

lemma logical_and_expression_reads:
  assumes "within p0 p"
    and callee: "\<And>s. within p0 s \<Longrightarrow>
      holds True (el s) (reads p0 (case_option [] pattern_expression_list_node) s)"
  shows "holds True (logical_and_expression k el p)
           (reads p0 (case_option [prefix_operators] pattern_logical_and_expression_node) p)"
  unfolding logical_and_expression_def
  by (rule binary_expression_reads[OF assms(1)]) (rule equality_expression_reads[OF _ callee])

lemma logical_or_expression_reads:
  assumes "within p0 p"
    and callee: "\<And>s. within p0 s \<Longrightarrow>
      holds True (el s) (reads p0 (case_option [] pattern_expression_list_node) s)"
  shows "holds True (logical_or_expression k el p)
           (reads p0 (case_option [prefix_operators] pattern_logical_or_expression_node) p)"
  unfolding logical_or_expression_def
  by (rule binary_expression_reads[OF assms(1)]) (rule logical_and_expression_reads[OF _ callee])

lemma assignment_expression_reads:
  assumes "within p0 p"
    and callee: "\<And>s. within p0 s \<Longrightarrow>
      holds True (el s) (reads p0 (case_option [] pattern_expression_list_node) s)"
  shows "holds True (assignment_expression k el p)
           (reads p0 (case_option [prefix_operators] pattern_assignment_expression_node) p)"
  unfolding assignment_expression_def
  by (rule binary_expression_reads[OF assms(1)]) (rule logical_or_expression_reads[OF _ callee])

lemma expression_reads:
  assumes "within p0 p"
    and callee: "\<And>s. within p0 s \<Longrightarrow>
      holds True (el s) (reads p0 (case_option [] pattern_expression_list_node) s)"
  shows "holds True (expression k el p)
           (reads p0 (case_option [prefix_operators] pattern_expression_node) p)"
  unfolding expression_def
  apply (intro reads_intros holds_and_then[OF assignment_expression_reads[OF _ callee]])
  using assms(1)
    apply (auto simp: reads_defs)
  done

lemma expression_list_loop_reads:
  assumes callee: "\<And>s. within p0 s \<Longrightarrow>
      holds True (expr_fn s) (reads p0 (case_option [prefix_operators] pattern_expression_node) s)"
  shows "within p0 p \<Longrightarrow> advances s0 p \<Longrightarrow> expressions n \<noteq> [] \<Longrightarrow>
    tracked p0 s0 (pattern_expression_list_node n) p \<Longrightarrow>
    holds True (expression_list_loop k expr_fn n p)
      (\<lambda>x q. advances p q \<and>
         tracked p0 s0 (case_option [] pattern_expression_list_node x) q)"
proof (induction k arbitrary: n p)
  case 0
  then show ?case by (simp add: holds_Out_of_fuel)
next
  case (Suc k)
  show ?case
    unfolding expression_list_loop.simps Let_def
    apply (intro reads_intros holds_and_then[OF callee] holds_weaken[OF Suc.IH])
    using Suc.prems
           apply (auto simp: reads_defs pattern_expression_list_node_snoc field_if
        dropped_def out_marker_def
        simp del: pattern_expression_list_node.simps split: if_splits intro!: matches_append)
    done
qed

lemma expression_list_from_reads:
  assumes "within p0 p"
    and callee: "\<And>s. within p0 s \<Longrightarrow>
      holds True (expr_fn s) (reads p0 (case_option [prefix_operators] pattern_expression_node) s)"
  shows "holds True (expression_list_from k expr_fn p)
           (reads p0 (case_option [] pattern_expression_list_node) p)"
  unfolding expression_list_from_def Let_def
  apply (intro reads_intros holds_and_then[OF callee]
      holds_weaken[OF expression_list_loop_reads[OF callee, where ?s0.0=p]])
  using assms(1)
         apply (auto simp: reads_defs field_if out_marker_def
      split: if_splits intro!: matches_append)
  done

lemma expression_list_reads:
  "within p0 p \<Longrightarrow>
     holds True (expression_list k p) (reads p0 (case_option [] pattern_expression_list_node) p)"
proof (induction k arbitrary: p)
  case 0
  then show ?case by (simp add: holds_Out_of_fuel)
next
  case (Suc k)
  show ?case
    unfolding expression_list.simps
    apply (rule expression_list_from_reads[OF Suc.prems])
    apply (rule expression_reads)
     apply assumption
    apply (rule Suc.IH)
    apply assumption
    done
qed

subsection \<open>The position of a compound statement and the false branch of a selection\<close>









section \<open>The result of parse\<close>

text \<open>
  C1, as amended: \<open>parse\<close> returns false exactly when the cursor does not reach the end
  of the input, and a parse that returns false has appended at least one diagnostic to
  the error sink.  (A diagnostic alone does not make \<open>parse\<close> return false.)
\<close>

theorem parse_false_iff_input_left:
  assumes "parse k toks pr = Ret b q"
  shows "b = is_done q \<and> (\<not> b \<longrightarrow> length (errors pr) < length (errors q))"
  using parse_holds[of True toks k pr] assms by (auto simp: holds_def)

text \<open>
  On \<^verbatim>\<open>) ; ;\<close> no declaration parses, the cursor stays at the first token, and \<open>parse\<close>
  reports the unexpected text and returns false.
\<close>

theorem parse_false_iff_input_left_witness:
  "parse 10 stray_tokens (new_parser []) =
     Ret False
       \<lparr>errors = [\<lparr>error_where = (1, 1),
                    error_msg = ''unexpected text at end of Cpp2 code section at )''\<rparr>],
        parse_tree = Translation_unit_node [], tokens = stray_tokens, pos = 0\<rparr>
   \<and> \<not> is_done
       \<lparr>errors = [\<lparr>error_where = (1, 1),
                    error_msg = ''unexpected text at end of Cpp2 code section at )''\<rparr>],
        parse_tree = Translation_unit_node [], tokens = stray_tokens, pos = 0\<rparr>
   \<and> length (errors (new_parser [])) < length
       (errors \<lparr>errors = [\<lparr>error_where = (1, 1),
                    error_msg = ''unexpected text at end of Cpp2 code section at )''\<rparr>],
        parse_tree = Translation_unit_node [], tokens = stray_tokens, pos = 0\<rparr>)"
proof -
  let ?q = "\<lparr>errors = [\<lparr>error_where = (1, 1),
                    error_msg = ''unexpected text at end of Cpp2 code section at )''\<rparr>],
        parse_tree = Translation_unit_node [], tokens = stray_tokens, pos = 0\<rparr>"
  have e: "parse 10 stray_tokens (new_parser []) = Ret False ?q"
    by code_simp
  from parse_false_iff_input_left[OF e] e show ?thesis
    by simp
qed

text \<open>
  C1 as stated fails: on \<^verbatim>\<open>x : int = a + ;\<close> the additive layer reports the missing
  operand after \<^verbatim>\<open>+\<close> and returns its partial node, the statement ends at the
  semicolon, the cursor reaches the end, and \<open>parse\<close> returns true with a diagnostic in
  the error sink.
\<close>

theorem parse_true_with_diagnostic_counterexample:
  "parse 20 dangling_plus_tokens (new_parser []) =
     Ret True
       \<lparr>errors = [\<lparr>error_where = (1, 15),
                    error_msg = ''invalid expression after + at ;''\<rparr>],
        parse_tree = Translation_unit_node
          [Declaration_node (Unqualified_id_node (tok Identifier ''x'' 1))
             (Object (Id_unqualified (Unqualified_id_node (tok Keyword ''int'' 5))))
             (Some (Statement_expression (Expression_statement_node
                (identifier_expression (tok Identifier ''a'' 11)))))],
        tokens = dangling_plus_tokens, pos = 7\<rparr>"
  by code_simp


section \<open>Null terms in an expression list\<close>

text \<open>
  C2 fails on the code: on \<^verbatim>\<open>a , )\<close> the production \<open>expression_list\<close> returns a node
  whose second term, added after the comma, has a null expression.  The visit function of
  the node asserts that every term has an expression, so visiting this node fails.
\<close>

theorem expression_list_null_term:
  "expression_list 10 (parser_on trailing_comma_tokens 0) =
     Ret (Some (Expression_list_node
            [(In, Some (identifier_expression (tok Identifier ''a'' 1))), (In, None)]))
       (parser_on trailing_comma_tokens 2)
   \<and> visit_expression_list_node
       (Expression_list_node
          [(In, Some (identifier_expression (tok Identifier ''a'' 1))), (In, None)]) 0 = None"
  by code_simp

text \<open>
  The whole input \<^verbatim>\<open>x : = ( a , ) ;\<close> is accepted without a diagnostic, and the visit of
  the stored tree fails at the null term.
\<close>

lemma parse_accepts_null_term:
  "result_of (parse 25 trailing_comma_declaration_tokens (new_parser [])) = Some True
   \<and> map_option errors (state_of (parse 25 trailing_comma_declaration_tokens (new_parser [])))
       = Some []
   \<and> Option.bind (state_of (parse 25 trailing_comma_declaration_tokens (new_parser []))) visit
       = None"
  by code_simp


section \<open>The precondition of the current-token accessor\<close>

text \<open>
  C3 fails on the code: on the single token \<^verbatim>\<open>x\<close> the declaration production parses the
  leading unqualified-id, which consumes the final token, and then reads the current token
  to test for the colon.  The cursor is at the end there, so the assertion of \<open>curr\<close>
  fails and the parse aborts.
\<close>

theorem parse_single_identifier_aborts:
  "unqualified_id (parser_on [tok Identifier ''x'' 1] 0) =
     Ret (Some (Unqualified_id_node (tok Identifier ''x'' 1)))
       (parser_on [tok Identifier ''x'' 1] 1)
   \<and> is_done (parser_on [tok Identifier ''x'' 1] 1)
   \<and> curr (parser_on [tok Identifier ''x'' 1] 1) = None
   \<and> parse 10 [tok Identifier ''x'' 1] (new_parser []) = Abort"
  by code_simp


section \<open>The token cursor: look-ahead\<close>

text \<open>
  C4, as amended: for every integer \<open>k\<close> whose index \<open>pos + k\<close> is not negative and at
  most 2147483647 (the sum does not overflow the 32-bit \<^verbatim>\<open>int\<close>), \<open>peek k\<close> yields absent
  when the index is at or beyond the size of the token sequence, and the token at that
  index otherwise.
\<close>

theorem peek_in_range:
  assumes "0 \<le> pos p + k" and "pos p + k \<le> 2147483647"
  shows "peek p k =
    (if pos p + k < int (length (tokens p))
     then Value (Some (tokens p ! nat (pos p + k))) else Value None)"
proof -
  have "int32 (pos p + k) = pos p + k"
    using assms by (simp add: int32_def)
  then show ?thesis
    using assms(1) by (simp add: peek_def)
qed

theorem peek_in_range_witness:
  "peek (parser_on [tok Identifier ''x'' 1, tok Colon '':'' 3] 1) (- 1)
   = Value (Some (tok Identifier ''x'' 1))"
  using peek_in_range [of "parser_on [tok Identifier ''x'' 1, tok Colon '':'' 3] 1" "- 1"]
  by (simp add: parser_on_def)

text \<open>
  C4 as stated fails below the sequence: at the start of the input, \<open>peek (- 1)\<close> does not
  yield absent, it reads outside the token sequence.
\<close>

theorem peek_negative_counterexample:
  "peek (parser_on [tok Identifier ''x'' 1] 0) (- 1) = Out_of_bounds"
  by (simp add: peek_def int32_def parser_on_def)

text \<open>
  It fails above the range of \<^verbatim>\<open>int\<close> as well: with the cursor at 1 the offset
  2147483647 makes the sum wrap around to a negative index, which again is read outside
  the token sequence.
\<close>

lemma peek_overflow:
  "peek (parser_on [tok Identifier ''x'' 1, tok Colon '':'' 3] 1) 2147483647 = Out_of_bounds"
  by (simp add: peek_def int32_def parser_on_def)


section \<open>The depth of the children in a visit\<close>

text \<open>
  C5 fails on the code: the visit of a declaration node passes \<open>depth + 1\<close> to the helper
  that visits the type, and the helper adds one again.  The input \<^verbatim>\<open>x : int ;\<close> parses
  to one declaration; when that declaration is visited at depth 0, its name is visited at
  depth 1 and its type, an id-expression, at depth 2.
\<close>

theorem declaration_type_child_depth:
  "parse 10 object_declaration_tokens (new_parser []) =
     Ret True
       \<lparr>errors = [], parse_tree = Translation_unit_node [object_declaration],
        tokens = object_declaration_tokens, pos = 4\<rparr>
   \<and> visit_declaration_node object_declaration 0 =
     Some [Start K_declaration 0,
           Start K_unqualified_id 1,
           Start (K_token (tok Identifier ''x'' 1)) 2,
           End K_unqualified_id 1,
           Start K_id_expression 2,
           Start K_unqualified_id 3,
           Start (K_token (tok Keyword ''int'' 5)) 4,
           End K_unqualified_id 3,
           End K_id_expression 2,
           End K_declaration 0]"
  by code_simp

text \<open>
  The statement node uses the same kind of helper and passes \<open>depth\<close> to it: its child is
  visited at \<open>depth + 1\<close>.
\<close>

lemma statement_child_depth:
  "visit_statement_node (Statement_declaration object_declaration) 0 =
     map_option (\<lambda>es. Start K_statement 0 # es @ [End K_statement 0])
       (visit_declaration_node object_declaration 1)"
  by (simp add: around_def)


section \<open>Rewinding productions\<close>

text \<open>
  C6, as amended: from a state whose cursor is in range, the expression-list production
  leaves the cursor at its entry position whenever it returns absent; the qualified-id
  and the declaration productions leave the cursor at its entry position whenever they
  return absent without having appended a diagnostic.
\<close>

theorem rewind_without_diagnostic:
  assumes "pos p \<le> int (length (tokens p))"
  shows "(expression_list k p = Ret None q1 \<longrightarrow> pos q1 = pos p) \<and>
    (qualified_id k p = Ret None q2 \<and> length (errors q2) = length (errors p)
       \<longrightarrow> pos q2 = pos p) \<and>
    (declaration_prod k b p = Ret None q3 \<and> length (errors q3) = length (errors p)
       \<longrightarrow> pos q3 = pos p)"
proof -
  have r: "in_range p"
    using assms by (simp add: in_range_def)
  have 1: "holds True (expression_list k p)
      (\<lambda>x q. consumes p x q \<and> (x = None \<longrightarrow> pos q = pos p))"
    by (rule expression_list_holds[OF r]) simp
  have 2: "holds True (qualified_id k p)
      (\<lambda>x q. consumes p x q \<and>
         (x = None \<longrightarrow> pos q = pos p \<or> length (errors p) < length (errors q)))"
    by (rule qualified_id_holds[OF r]) simp
  have 3: "holds True (declaration_prod k b p) (rewinds_or_reports p)"
    by (rule declaration_prod_holds[OF r]) simp
  from 1 2 3 show ?thesis
    by (auto simp: holds_def rewinds_or_reports_def)
qed

text \<open>
  On \<^verbatim>\<open>! ;\<close> the expression-list production consumes the prefix operator, finds no
  primary expression and rewinds; the two other productions fail at the first token.
\<close>

theorem rewind_without_diagnostic_witness:
  "expression_list 10 (parser_on not_semicolon_tokens 0) =
     Ret None (parser_on not_semicolon_tokens 0)
   \<and> qualified_id 10 (parser_on not_semicolon_tokens 0) =
     Ret None (parser_on not_semicolon_tokens 0)
   \<and> declaration_prod 10 True (parser_on not_semicolon_tokens 0) =
     Ret None (parser_on not_semicolon_tokens 0)
   \<and> pos (parser_on not_semicolon_tokens 0) \<le> int (length (tokens (parser_on not_semicolon_tokens 0)))"
proof -
  let ?p = "parser_on not_semicolon_tokens 0"
  have e1: "expression_list 10 ?p = Ret None ?p"
    by code_simp
  have e2: "qualified_id 10 ?p = Ret None ?p"
    by code_simp
  have e3: "declaration_prod 10 True ?p = Ret None ?p"
    by code_simp
  have r: "pos ?p \<le> int (length (tokens ?p))"
    by (simp add: parser_on_def)
  from rewind_without_diagnostic[OF r, of 10 ?p ?p True ?p] e1 e2 e3 r show ?thesis
    by simp
qed

text \<open>
  C6 as stated fails for the declaration production: on \<^verbatim>\<open>x : int y\<close> with a required
  semicolon it reports the missing semicolon and returns absent with the cursor at the
  fourth token, three tokens after its entry position.  The qualified-id production does
  the same on \<^verbatim>\<open>std :: 1\<close>, where it reports the missing name after the scope operator.
\<close>

theorem declaration_no_rewind_counterexample:
  "declaration_prod 10 True (parser_on missing_semicolon_tokens 0) =
     Ret None
       \<lparr>errors = [\<lparr>error_where = (1, 9),
                    error_msg = ''missing semicolon at end of declaration at y''\<rparr>],
        parse_tree = Translation_unit_node [], tokens = missing_semicolon_tokens, pos = 3\<rparr>
   \<and> pos (parser_on missing_semicolon_tokens 0) = 0"
  by code_simp

lemma qualified_id_no_rewind:
  "qualified_id 10 (parser_on bad_scope_tokens 0) =
     Ret None
       \<lparr>errors = [\<lparr>error_where = (1, 8),
                    error_msg = ''invalid text, :: should be followed by a nested name at 1''\<rparr>],
        parse_tree = Translation_unit_node [], tokens = bad_scope_tokens, pos = 2\<rparr>"
  by code_simp


section \<open>Precedence\<close>

text \<open>
  C7: when the expression production returns a node and reports no diagnostic, the
  operators stored at each binary layer of the node are operators of that layer, and the
  terms of a layer are nodes of the next layer, down from assignment through logical-or,
  logical-and, equality, relational, compare, shift, additive and multiplicative to is-as;
  and the tokens that the production consumed are the tokens of the node in their order:
  they match the pattern of the node, in which every stored token stands at its place
  and only parentheses, brackets, commas and \<^verbatim>\<open>out\<close> markers stand between them.
  Every operator of the input is therefore stored at the layer of its precedence, between
  the terms that surround it in the input, and an operator of higher precedence is stored
  more deeply than one of lower precedence.
\<close>

theorem expression_groups_by_precedence:
  assumes "expression k (expression_list k') p = Ret (Some e) q"
    and "0 \<le> pos p" and "pos p \<le> int (length (tokens p))"
    and "length (errors q) = length (errors p)"
  shows "assignment_ok (expression_expr e) \<and>
         matches (pattern_expression_node e) (consumed p q)"
proof -
  have "within p p"
    using assms(2,3) by (simp add: within_def)
  then have "holds True (expression k (expression_list k') p)
      (reads p (case_option [prefix_operators] pattern_expression_node) p)"
    by (rule expression_reads) (rule expression_list_reads)
  then have "matches (pattern_expression_node e) (consumed p q)"
    using assms(1,4) by (auto simp: holds_def reads_def tracked_def consumed_self)
  moreover have "assignment_ok (expression_expr e)"
    using expression_layers[of k "expression_list k'" p] assms(1)
    by (simp add: holds_def yields_def)
  ultimately show ?thesis
    by simp
qed

text \<open>
  The initializer of \<^verbatim>\<open>x : int = a + b * c ;\<close> is parsed from the fifth token on.  The
  production consumes the five tokens \<^verbatim>\<open>a + b * c\<close> and returns the additive node with
  head \<^verbatim>\<open>a\<close> and the term \<^verbatim>\<open>+\<close> with the multiplicative node of \<^verbatim>\<open>b\<close> and
  \<^verbatim>\<open>(*, c)\<close>; the whole input parses to a declaration with this initializer.
\<close>

theorem expression_groups_by_precedence_witness:
  "expression 10 (expression_list 10) (parser_on precedence_tokens 4) =
     Ret (Some a_plus_b_times_c) (parser_on precedence_tokens 9)
   \<and> consumed (parser_on precedence_tokens 4) (parser_on precedence_tokens 9) =
     [tok Identifier ''a'' 11, tok Plus ''+'' 13, tok Identifier ''b'' 15,
      tok Multiply ''*'' 17, tok Identifier ''c'' 19]
   \<and> assignment_ok (expression_expr a_plus_b_times_c)
   \<and> matches (pattern_expression_node a_plus_b_times_c)
       (consumed (parser_on precedence_tokens 4) (parser_on precedence_tokens 9))
   \<and> parse 25 precedence_tokens (new_parser []) =
     Ret True
       \<lparr>errors = [],
        parse_tree = Translation_unit_node
          [Declaration_node (Unqualified_id_node (tok Identifier ''x'' 1))
             (Object (Id_unqualified (Unqualified_id_node (tok Keyword ''int'' 5))))
             (Some (Statement_expression (Expression_statement_node a_plus_b_times_c)))],
        tokens = precedence_tokens, pos = 10\<rparr>"
proof -
  have e: "expression 10 (expression_list 10) (parser_on precedence_tokens 4) =
     Ret (Some a_plus_b_times_c) (parser_on precedence_tokens 9)"
    by code_simp
  have c: "consumed (parser_on precedence_tokens 4) (parser_on precedence_tokens 9) =
     [tok Identifier ''a'' 11, tok Plus ''+'' 13, tok Identifier ''b'' 15,
      tok Multiply ''*'' 17, tok Identifier ''c'' 19]"
    by code_simp
  have b: "0 \<le> pos (parser_on precedence_tokens 4)"
    "pos (parser_on precedence_tokens 4)
       \<le> int (length (tokens (parser_on precedence_tokens 4)))"
    "length (errors (parser_on precedence_tokens 9)) =
       length (errors (parser_on precedence_tokens 4))"
    by (simp_all add: parser_on_def precedence_tokens_def)
  have f: "parse 25 precedence_tokens (new_parser []) =
     Ret True
       \<lparr>errors = [],
        parse_tree = Translation_unit_node
          [Declaration_node (Unqualified_id_node (tok Identifier ''x'' 1))
             (Object (Id_unqualified (Unqualified_id_node (tok Keyword ''int'' 5))))
             (Some (Statement_expression (Expression_statement_node a_plus_b_times_c)))],
        tokens = precedence_tokens, pos = 10\<rparr>"
    by code_simp
  from expression_groups_by_precedence[OF e b] e c f show ?thesis
    by simp
qed

text \<open>
  The pattern tells nodes apart: the node of the lone identifier \<^verbatim>\<open>a\<close> and the node of
  \<^verbatim>\<open>a * b + c\<close> do not match the five tokens \<^verbatim>\<open>a + b * c\<close>.
\<close>

lemma other_nodes_do_not_match:
  "\<not> matches (pattern_expression_node (identifier_expression (tok Identifier ''a'' 11)))
        (consumed (parser_on precedence_tokens 4) (parser_on precedence_tokens 9))
   \<and> \<not> matches
        (pattern_expression_node
           (Expression_node
              (lone_term (lone_term (lone_term (lone_term (lone_term (lone_term (lone_term
                (Binary_expression_node
                   (Binary_expression_node
                      (lone_term (identifier_prefix (tok Identifier ''a'' 11)))
                      [(tok Multiply ''*'' 17,
                        lone_term (identifier_prefix (tok Identifier ''b'' 15)))])
                   [(tok Plus ''+'' 13,
                     lone_term (lone_term
                       (identifier_prefix (tok Identifier ''c'' 19))))]))))))))))
        (consumed (parser_on precedence_tokens 4) (parser_on precedence_tokens 9))"
  by code_simp


section \<open>The false branch of a selection statement\<close>



text \<open>
  \<^verbatim>\<open>if a { } else { } ;\<close> has an else: the false branch is the parsed compound statement
  with the position of its opening brace.
\<close>

lemma selection_statement_with_else:
  "selection_statement 10 (compound_statement 10 (statement 10)) (parser_on if_else_tokens 0) =
     Ret (Some (Selection_statement_node False (tok Keyword ''if'' 1)
                 (identifier_expression (tok Identifier ''a'' 4))
                 (Compound_statement_node (1, 6) [])
                 (Some (Compound_statement_node (1, 15) []))))
       (parser_on if_else_tokens 7)"
  by code_simp


section \<open>The dot in a postfix expression\<close>

text \<open>
  C9: when the loop of the postfix expression production is at a dot that is followed by
  an identifier, it consumes the dot, stores it as an operator term with a null expression
  list and returns with the cursor at the identifier: the identifier is neither consumed
  nor attached, and the expression list production is not called.
\<close>

theorem postfix_dot_not_parsed:
  assumes "curr p = Some t" and "type t = Dot"
    and "curr (next_tok 1 p) = Some u" and "type u = Identifier"
  shows "postfix_expression_loop (Suc (Suc k)) expr_list_fn n p =
    Ret (Some (Postfix_expression_node (postfix_expr n) (postfix_ops n @ [(t, None)])))
      (next_tok 1 p)"
  using assms by (simp add: with_curr_def)

text \<open>
  On \<^verbatim>\<open>a . b ;\<close> the postfix expression is \<^verbatim>\<open>a\<close> with the dot as its only operator, and
  the cursor is left at \<^verbatim>\<open>b\<close>.
\<close>

theorem postfix_dot_not_parsed_witness:
  "postfix_expression_loop (Suc (Suc 0)) (expression_list 10)
     (Postfix_expression_node (Primary_identifier (tok Identifier ''a'' 1)) [])
     (parser_on dot_tokens 1) =
     Ret (Some (Postfix_expression_node (Primary_identifier (tok Identifier ''a'' 1))
                 [(tok Dot ''.'' 2, None)]))
       (parser_on dot_tokens 2)
   \<and> postfix_expression 10 (expression_list 10) (parser_on dot_tokens 0) =
     Ret (Some (Postfix_expression_node (Primary_identifier (tok Identifier ''a'' 1))
                 [(tok Dot ''.'' 2, None)]))
       (parser_on dot_tokens 2)"
proof -
  have c1: "curr (parser_on dot_tokens 1) = Some (tok Dot ''.'' 2)"
    by code_simp
  have c2: "type (tok Dot ''.'' 2) = Dot"
    by (simp add: tok_def)
  have c3: "curr (next_tok 1 (parser_on dot_tokens 1)) = Some (tok Identifier ''b'' 3)"
    by code_simp
  have c4: "type (tok Identifier ''b'' 3) = Identifier"
    by (simp add: tok_def)
  have n: "next_tok 1 (parser_on dot_tokens 1) = parser_on dot_tokens 2"
    by code_simp
  have f: "postfix_expression 10 (expression_list 10) (parser_on dot_tokens 0) =
     Ret (Some (Postfix_expression_node (Primary_identifier (tok Identifier ''a'' 1))
                 [(tok Dot ''.'' 2, None)]))
       (parser_on dot_tokens 2)"
    by code_simp
  from postfix_dot_not_parsed[OF c1 c2 c3 c4, of 0 "expression_list 10"
      "Postfix_expression_node (Primary_identifier (tok Identifier ''a'' 1)) []"] n f
  show ?thesis
    by simp
qed


section \<open>Termination\<close>

text \<open>
  C10: \<open>parse\<close> terminates on every token sequence.  With fuel above twice the number of
  tokens plus two, the run is never out of fuel: it returns, or it stops at a failed
  assertion of the cursor.  Every loop iteration and every cycle of recursive calls of
  the productions consumes at least one token or ends the run, which is what the lemmas
  on the loops establish.
\<close>

theorem parse_terminates:
  assumes "2 * length toks + 2 < k"
  shows "parse k toks pr \<noteq> Out_of_fuel"
  using parse_holds[of False toks k pr] assms by (auto simp: holds_def)

theorem parse_terminates_witness:
  "2 * length declaration_tokens + 2 < (20::nat)
   \<and> parse 20 declaration_tokens (new_parser []) \<noteq> Out_of_fuel"
proof -
  have l: "2 * length declaration_tokens + 2 < (20::nat)"
    by (simp add: declaration_tokens_def)
  from parse_terminates[OF l, of "new_parser []"] l show ?thesis
    by simp
qed

text \<open>The run on \<^verbatim>\<open>x : int = 42 ;\<close> returns true with one declaration and no diagnostic.\<close>

lemma parse_declaration_tokens:
  "parse 20 declaration_tokens (new_parser []) =
     Ret True
       \<lparr>errors = [],
        parse_tree = Translation_unit_node
          [Declaration_node (Unqualified_id_node (tok Identifier ''x'' 1))
             (Object (Id_unqualified (Unqualified_id_node (tok Keyword ''int'' 5))))
             (Some (Statement_expression (Expression_statement_node
                (identifier_expression (tok DecimalLiteral ''42'' 11)))))],
        tokens = declaration_tokens, pos = 6\<rparr>"
  by code_simp

end
